theory Spec2Isabelle
  imports Complex_Main
begin

section \<open>Python values, exceptions and tensors\<close>

text \<open>
  The development embeds \<^verbatim>\<open>src/animatediff/sampling.py\<close>. Every function of the
  source that can raise returns a sum: \<open>Inl e\<close> is the exception \<open>e\<close>, \<open>Inr v\<close> the value.
  \<open>Raised n\<close> stands for an exception that comes out of a collaborator that is not part
  of the file (the denoiser, the motion module loader, the control nets, ...); the number
  only tells such exceptions apart.
\<close>

datatype exn =
    AssertionError
  | AttributeError
  | IndexError
  | KeyError
  | RecursionError
  | RuntimeError
  | TypeError
  | UnboundLocalError
  | ValueError
  | ZeroDivisionError
  | Raised nat

text \<open>Sequencing of two computations that may raise: the first exception wins.\<close>

definition bnd :: "exn + 'a \<Rightarrow> ('a \<Rightarrow> exn + 'b) \<Rightarrow> exn + 'b" where
  "bnd m f = (case m of Inl e \<Rightarrow> Inl e | Inr v \<Rightarrow> f v)"

text \<open>
  A tensor is seen along its leading dimension: \<open>Tensor tr rs\<close> has the rows \<open>rs\<close>
  (for the latent batch, one row per frame) and the trailing dimensions \<open>tr\<close>, so its
  shape is \<open>length rs # tr\<close>. \<open>Tensor0\<close> is a tensor without dimensions. What is inside a
  row (floating point numbers) is left abstract in the type \<open>'r\<close>.
\<close>

datatype 'r tensor = Tensor0 'r | Tensor "nat list" "'r list"

fun shape :: "'r tensor \<Rightarrow> nat list" where
  "shape (Tensor0 v) = []"
| "shape (Tensor tr rs) = length rs # tr"

text \<open>\<^verbatim>\<open>t.shape[k]\<close> and \<^verbatim>\<open>t.size(0)\<close>: an IndexError when the dimension is missing.\<close>

definition shape_at :: "'r tensor \<Rightarrow> nat \<Rightarrow> exn + nat" where
  "shape_at t k = (if k < length (shape t) then Inr (shape t ! k) else Inl IndexError)"

definition size0 :: "'r tensor \<Rightarrow> exn + nat" where
  "size0 t = shape_at t 0"

text \<open>
  Python's index normalisation: an index \<open>i\<close> into \<open>n\<close> items stands for \<open>n + i\<close> when it
  is negative, and is an IndexError outside \<open>-n \<le> i < n\<close>.
\<close>

definition py_index :: "'a list \<Rightarrow> int \<Rightarrow> exn + 'a" where
  "py_index xs i =
     (if 0 \<le> i \<and> i < int (length xs) then Inr (xs ! nat i)
      else if i < 0 \<and> - int (length xs) \<le> i then Inr (xs ! nat (int (length xs) + i))
      else Inl IndexError)"

text \<open>
  A list of results becomes the result of the list; the first exception, in list order,
  is the one raised.
\<close>

fun sequence :: "(exn + 'a) list \<Rightarrow> exn + 'a list" where
  "sequence [] = Inr []"
| "sequence (m # ms) = bnd m (\<lambda>v. bnd (sequence ms) (\<lambda>vs. Inr (v # vs)))"

text \<open>
  \<^verbatim>\<open>t[full_idxs]\<close> with a list of integers: the rows of \<open>t\<close> at these indices, in the order
  of the list, an index may occur several times.
\<close>

fun gather :: "'r tensor \<Rightarrow> int list \<Rightarrow> exn + 'r tensor" where
  "gather (Tensor0 v) idxs = Inl IndexError"
| "gather (Tensor tr rs) idxs = bnd (sequence (map (py_index rs) idxs)) (\<lambda>rs'. Inr (Tensor tr rs'))"

section \<open>Requests and the merge-compatibility predicate\<close>

text \<open>
  A Python dict is an association list of its items together with the identity of the
  dict object: \<^verbatim>\<open>c1 is c2\<close> compares identities, not contents.
\<close>

type_synonym oid = nat

type_synonym ('k, 'v) pydict = "oid \<times> ('k \<times> 'v) list"

definition ident :: "('k, 'v) pydict \<Rightarrow> oid" where
  "ident d = fst d"

definition keys :: "('k, 'v) pydict \<Rightarrow> 'k set" where
  "keys d = set (map fst (snd d))"

definition lookup :: "('k, 'v) pydict \<Rightarrow> 'k \<Rightarrow> 'v option" where
  "lookup d k = map_of (snd d) k"

text \<open>
  The tuple that \<^verbatim>\<open>get_area_and_mult\<close> returns, \<^verbatim>\<open>(input_x, mult, conditionning, area,
  control, patches)\<close>: \<open>p_control\<close> is the address of a control object or None,
  \<open>p_patches\<close> a dict or None. \<open>'c\<close> is the type of the conditioning objects
  (\<^verbatim>\<open>comfy.conds\<close>), \<open>'p\<close> the type of a gligen patch.
\<close>

record ('r, 'c, 'p) request =
  p_input_x :: "'r tensor"
  p_mult :: "'r tensor"
  p_conditioning :: "(string, 'c) pydict"
  p_area :: "int \<times> int \<times> int \<times> int"
  p_control :: "nat option"
  p_patches :: "(string, 'p list) pydict option"

text \<open>
  \<^verbatim>\<open>cond_equal_size\<close> (lines 289-297). \<open>can_concat\<close> is the method of the conditioning
  objects, which the repository does not define. The lookups cannot fail once the key
  sets are equal.
\<close>

definition cond_equal_size ::
  "('c \<Rightarrow> 'c \<Rightarrow> bool) \<Rightarrow> (string, 'c) pydict \<Rightarrow> (string, 'c) pydict \<Rightarrow> bool" where
  "cond_equal_size can_concat c1 c2 =
     (if ident c1 = ident c2 then True
      else if keys c1 \<noteq> keys c2 then False
      else list_all
             (\<lambda>k. case (lookup c1 k, lookup c2 k) of
                     (Some v1, Some v2) \<Rightarrow> can_concat v1 v2
                   | _ \<Rightarrow> False)
             (map fst (snd c1)))"

text \<open>\<^verbatim>\<open>can_concat_cond\<close> (lines 299-317).\<close>

definition can_concat_cond ::
  "('c \<Rightarrow> 'c \<Rightarrow> bool) \<Rightarrow> ('r, 'c, 'p) request \<Rightarrow> ('r, 'c, 'p) request \<Rightarrow> bool" where
  "can_concat_cond can_concat c1 c2 =
     (if shape (p_input_x c1) \<noteq> shape (p_input_x c2) then False
      else if (p_control c1 = None) \<noteq> (p_control c2 = None) then False
      else if p_control c1 \<noteq> None \<and> p_control c1 \<noteq> p_control c2 then False
      else if (p_patches c1 = None) \<noteq> (p_patches c2 = None) then False
      else if p_patches c1 \<noteq> None \<and> map_option ident (p_patches c1) \<noteq> map_option ident (p_patches c2)
        then False
      else cond_equal_size can_concat (p_conditioning c1) (p_conditioning c2))"

section \<open>The global state and the control objects\<close>

text \<open>
  \<^verbatim>\<open>AnimateDiffHelper_GlobalState\<close> (lines 33-65). \<open>motion_module\<close> is a reference to the
  motion module object or None; a field of type \<open>option\<close> is None where Python's is.
\<close>

record adgs =
  motion_module :: "nat option"
  start_step :: int
  last_step :: int
  current_step :: int
  total_steps :: int
  video_length :: int
  context_frames :: "int option"
  context_stride :: "int option"
  context_overlap :: "int option"
  context_schedule :: "string option"
  closed_loop :: bool
  sync_context_to_pe :: bool
  sub_idxs :: "int list option"

definition reset :: "adgs \<Rightarrow> adgs" where
  "reset g = g\<lparr>start_step := 0, last_step := 0, current_step := 0, total_steps := 0,
      video_length := 0, context_frames := None, context_stride := None,
      context_overlap := None, context_schedule := None, closed_loop := False,
      sync_context_to_pe := False, sub_idxs := None, motion_module := None\<rparr>"

definition is_using_sliding_context :: "adgs \<Rightarrow> bool" where
  "is_using_sliding_context g = (context_frames g \<noteq> None)"

text \<open>
  A control object (\<^verbatim>\<open>ControlBase\<close>) lives in a store, and a conditioning entry holds its
  address: two entries with the same address share the object. \<open>ctl_sub_idxs\<close> is \<open>None\<close>
  when the object has no attribute \<^verbatim>\<open>sub_idxs\<close> (then \<^verbatim>\<open>hasattr\<close> is false), \<open>Some None\<close>
  when the attribute is None and \<open>Some (Some l)\<close> when it is the list \<open>l\<close>.
\<close>

record control =
  previous_controlnet :: "nat option"
  ctl_sub_idxs :: "int list option option"
  full_latent_length :: "int option"
  context_length :: "int option"

type_synonym heap = "nat \<Rightarrow> control option"

text \<open>
  \<^verbatim>\<open>prepare_control_objects\<close> (lines 471-476): the links before this one first, then the
  three attributes of this one. The first argument is the number of stack frames that
  Python's recursion limit still allows: a chain that is longer, or that runs in a circle,
  ends in a RecursionError. An address without an object is not a control object.
\<close>

fun prepare_control_objects ::
  "nat \<Rightarrow> adgs \<Rightarrow> heap \<Rightarrow> nat \<Rightarrow> int list \<Rightarrow> (exn + unit) \<times> heap" where
  "prepare_control_objects 0 g h a full_idxs = (Inl RecursionError, h)"
| "prepare_control_objects (Suc d) g h a full_idxs =
     (case h a of
        None \<Rightarrow> (Inl AttributeError, h)
      | Some c \<Rightarrow>
          (case (case previous_controlnet c of
                   None \<Rightarrow> (Inr (), h)
                 | Some p \<Rightarrow> prepare_control_objects d g h p full_idxs) of
             (Inl e, h') \<Rightarrow> (Inl e, h')
           | (Inr u, h') \<Rightarrow>
               (case h' a of
                  None \<Rightarrow> (Inl AttributeError, h')
                | Some c' \<Rightarrow>
                    (Inr (), h'(a \<mapsto> c'\<lparr>ctl_sub_idxs := Some (Some full_idxs),
                                      full_latent_length := Some (video_length g),
                                      context_length := context_frames g\<rparr>)))))"

section \<open>Conditioning entries and their projection onto a window\<close>

text \<open>
  The values of a conditioning entry, as \<^verbatim>\<open>get_resized_cond\<close> and \<^verbatim>\<open>get_area_and_mult\<close>
  tell them apart. \<open>obj\<close> is a reference to an object of a collaborator, opaque here.
  Inside a nested dict, \<open>IWrapped w t\<close> is an object with an attribute \<^verbatim>\<open>cond\<close> that is the
  tensor \<open>t\<close> (\<open>w\<close> is the rest of the object); \<^verbatim>\<open>_copy_with\<close> keeps \<open>w\<close> and replaces the
  tensor.
\<close>

type_synonym obj = nat

datatype 'r inner = ITensor "'r tensor" | IWrapped obj "'r tensor" | IOther obj

datatype 'r pyval =
    VTensor "'r tensor"
  | VControl nat
  | VDict "(string \<times> 'r inner) list"
  | VFloat real
  | VArea "int \<times> int \<times> int \<times> int"
  | VGligen string obj
  | VOther obj

type_synonym 'r entry = "(string \<times> 'r pyval) list"

text \<open>
  The test on a tensor (lines 490-495 and 511-516): \<open>x\<close> is the full input batch of
  \<^verbatim>\<open>sliding_sampling_function\<close>; a tensor with as many rows as \<open>x\<close> is replaced by its rows
  at \<open>full_idxs\<close>.
\<close>

definition resize_tensor :: "'r tensor \<Rightarrow> int list \<Rightarrow> 'r tensor \<Rightarrow> exn + 'r tensor" where
  "resize_tensor x full_idxs t =
     bnd (size0 t) (\<lambda>n. bnd (size0 x) (\<lambda>xn.
       if n = xn then gather t full_idxs else Inr t))"

text \<open>The values of a nested dict (lines 509-516); inside it, a tensor that does not
  have the size of the batch is left as it is in the copy.\<close>

fun resize_inner :: "'r tensor \<Rightarrow> int list \<Rightarrow> 'r inner \<Rightarrow> exn + 'r inner" where
  "resize_inner x full_idxs (ITensor t) = bnd (resize_tensor x full_idxs t) (\<lambda>t'. Inr (ITensor t'))"
| "resize_inner x full_idxs (IWrapped w t) = bnd (resize_tensor x full_idxs t) (\<lambda>t'. Inr (IWrapped w t'))"
| "resize_inner x full_idxs (IOther v) = Inr (IOther v)"

text \<open>
  One key of an entry (lines 486-521). The order of the tests is the source's: a tensor
  first, whatever its key; then the key \<^verbatim>\<open>control\<close>; then a dict; then anything else. Under
  the key \<^verbatim>\<open>control\<close> a value that is not a control object has no attribute
  \<^verbatim>\<open>sub_idxs\<close>.
\<close>

definition resize_item ::
  "nat \<Rightarrow> adgs \<Rightarrow> 'r tensor \<Rightarrow> int list \<Rightarrow> heap \<Rightarrow> string \<Rightarrow> 'r pyval \<Rightarrow> (exn + 'r pyval) \<times> heap" where
  "resize_item fuel g x full_idxs h key cond_item =
     (case cond_item of
        VTensor t \<Rightarrow> (bnd (resize_tensor x full_idxs t) (\<lambda>t'. Inr (VTensor t')), h)
      | _ \<Rightarrow>
          if key = ''control'' then
            (case cond_item of
               VControl a \<Rightarrow>
                 (case h a of
                    None \<Rightarrow> (Inl ValueError, h)
                  | Some c \<Rightarrow>
                      if ctl_sub_idxs c \<noteq> None then
                        (case prepare_control_objects fuel g h a full_idxs of
                           (Inl e, h') \<Rightarrow> (Inl e, h')
                         | (Inr u, h') \<Rightarrow> (Inr (VControl a), h'))
                      else (Inl ValueError, h))
             | _ \<Rightarrow> (Inl ValueError, h))
          else
            (case cond_item of
               VDict d \<Rightarrow>
                 (bnd (sequence (map (\<lambda>(cond_key, cond_value).
                          bnd (resize_inner x full_idxs cond_value) (\<lambda>v. Inr (cond_key, v))) d))
                    (\<lambda>d'. Inr (VDict d')), h)
             | _ \<Rightarrow> (Inr cond_item, h)))"

text \<open>
  The loop over the keys of one entry (line 485). The entry is a dict, so its keys are
  distinct, and storing under a key of the copy replaces the value in place.
\<close>

fun resize_items ::
  "nat \<Rightarrow> adgs \<Rightarrow> 'r tensor \<Rightarrow> int list \<Rightarrow> heap \<Rightarrow> 'r entry \<Rightarrow> (exn + 'r entry) \<times> heap" where
  "resize_items fuel g x full_idxs h [] = (Inr [], h)"
| "resize_items fuel g x full_idxs h ((key, cond_item) # rest) =
     (case resize_item fuel g x full_idxs h key cond_item of
        (Inl e, h') \<Rightarrow> (Inl e, h')
      | (Inr v, h') \<Rightarrow>
          (case resize_items fuel g x full_idxs h' rest of
             (Inl e, h'') \<Rightarrow> (Inl e, h'')
           | (Inr rest', h'') \<Rightarrow> (Inr ((key, v) # rest'), h'')))"

text \<open>\<^verbatim>\<open>get_resized_cond\<close> (lines 478-523): the loop over the entries of the list.\<close>

fun get_resized_cond ::
  "nat \<Rightarrow> adgs \<Rightarrow> 'r tensor \<Rightarrow> int list \<Rightarrow> heap \<Rightarrow> 'r entry list \<Rightarrow> (exn + 'r entry list) \<times> heap" where
  "get_resized_cond fuel g x full_idxs h [] = (Inr [], h)"
| "get_resized_cond fuel g x full_idxs h (actual_cond # cond_in) =
     (case resize_items fuel g x full_idxs h actual_cond of
        (Inl e, h') \<Rightarrow> (Inl e, h')
      | (Inr resized_actual_cond, h') \<Rightarrow>
          (case get_resized_cond fuel g x full_idxs h' cond_in of
             (Inl e, h'') \<Rightarrow> (Inl e, h'')
           | (Inr resized_cond, h'') \<Rightarrow> (Inr (resized_actual_cond # resized_cond), h'')))"

section \<open>The collaborators\<close>

text \<open>
  What the file calls and does not define: the tensor library, the methods of the
  conditioning objects, of the gligen model and of the control objects, and the context
  scheduler. They are parameters of the embedding, gathered in one record; what is proved
  below holds for every behaviour of them. The operations that can raise return a sum.
  The fields whose name starts with \<open>t_\<close> are operations on tensors:
  \<^item> \<open>t_item0 t\<close> is the number \<^verbatim>\<open>t[0]\<close>;
  \<^item> \<open>t_crop t (a0, a1, a2, a3)\<close> is \<^verbatim>\<open>t[:, :, a2:a0 + a2, a3:a1 + a3]\<close>, and
    \<open>t_crop_mask\<close> is \<^verbatim>\<open>t[:, a2:a0 + a2, a3:a1 + a3]\<close>;
  \<^item> \<open>t_unsqueeze_repeat t n c\<close> is \<^verbatim>\<open>t.unsqueeze(1).repeat(n, c, 1, 1)\<close>;
  \<^item> \<open>t_scale_band t d lo hi f\<close> is \<open>t\<close> after \<^verbatim>\<open>t[..., lo:hi, ...] *= f\<close> along dimension \<open>d\<close>;
  \<^item> \<open>t_crop_iadd t a v\<close> is \<open>t\<close> after \<^verbatim>\<open>t[:, :, a2:a0 + a2, a3:a1 + a3] += v\<close>;
  \<^item> \<open>t_index_iadd t idxs v\<close> is \<open>t\<close> after \<^verbatim>\<open>t[idxs] += v\<close>, and \<open>t_index_iadd_one\<close>
    is \<open>t\<close> after \<^verbatim>\<open>t[idxs] += 1\<close>;
  \<^item> \<open>t_zeros_count n\<close> is \<^verbatim>\<open>torch.zeros((n, 1, 1, 1))\<close>.
  \<open>get_context_scheduler\<close> looks a scheduler up by its name; a scheduler receives the
  current step, the number of steps, the video length, the window length, the stride, the
  overlap and the flag of the closed loop, and its windows are taken as a list.
  The keyword arguments of the denoiser are a dict whose values are tensors, the output
  of a control object, or the transformer options.
\<close>

record topts =
  to_patches :: "(string \<times> obj list) list option"
  to_cond_or_uncond :: "nat list option"
  to_other :: "(string \<times> obj) list"

datatype 'r cval = CTensor "'r tensor" | CControl obj | COptions topts

type_synonym 'r cdict = "(string \<times> 'r cval) list"

type_synonym area = "int \<times> int \<times> int \<times> int"

type_synonym scheduler =
  "int \<Rightarrow> int \<Rightarrow> int \<Rightarrow> int option \<Rightarrow> int option \<Rightarrow> int option \<Rightarrow> bool \<Rightarrow> exn + int list list"

record 'r lib =
  t_zeros_like :: "'r tensor \<Rightarrow> 'r tensor"
  t_ones_like :: "'r tensor \<Rightarrow> 'r tensor"
  t_div_scalar :: "'r tensor \<Rightarrow> real \<Rightarrow> 'r tensor"
  t_mul_scalar :: "'r tensor \<Rightarrow> real \<Rightarrow> exn + 'r tensor"
  t_item0 :: "'r tensor \<Rightarrow> exn + real"
  t_crop :: "'r tensor \<Rightarrow> area \<Rightarrow> exn + 'r tensor"
  t_crop_mask :: "'r tensor \<Rightarrow> area \<Rightarrow> exn + 'r tensor"
  t_unsqueeze_repeat :: "'r tensor \<Rightarrow> nat \<Rightarrow> nat \<Rightarrow> exn + 'r tensor"
  t_scale_band :: "'r tensor \<Rightarrow> nat \<Rightarrow> int \<Rightarrow> int \<Rightarrow> real \<Rightarrow> exn + 'r tensor"
  t_cat :: "'r tensor list \<Rightarrow> exn + 'r tensor"
  t_chunk :: "'r tensor \<Rightarrow> nat \<Rightarrow> exn + 'r tensor list"
  t_mul :: "'r tensor \<Rightarrow> 'r tensor \<Rightarrow> exn + 'r tensor"
  t_crop_iadd :: "'r tensor \<Rightarrow> area \<Rightarrow> 'r tensor \<Rightarrow> exn + 'r tensor"
  t_idiv :: "'r tensor \<Rightarrow> 'r tensor \<Rightarrow> exn + 'r tensor"
  t_zeros_count :: "nat \<Rightarrow> 'r tensor"
  t_index_iadd :: "'r tensor \<Rightarrow> int list \<Rightarrow> 'r tensor \<Rightarrow> exn + 'r tensor"
  t_index_iadd_one :: "'r tensor \<Rightarrow> int list \<Rightarrow> exn + 'r tensor"
  m_process_cond :: "'r inner \<Rightarrow> nat \<Rightarrow> area \<Rightarrow> exn + 'r inner"
  m_can_concat :: "'r inner \<Rightarrow> 'r inner \<Rightarrow> bool"
  m_concat :: "'r inner \<Rightarrow> 'r inner list \<Rightarrow> exn + 'r tensor"
  m_set_position :: "obj \<Rightarrow> nat list \<Rightarrow> exn + obj"
  m_set_empty :: "obj \<Rightarrow> nat list \<Rightarrow> exn + obj"
  m_get_control :: "heap \<Rightarrow> nat \<Rightarrow> 'r tensor \<Rightarrow> 'r tensor \<Rightarrow> 'r cdict \<Rightarrow> nat \<Rightarrow> exn + obj"
  get_context_scheduler :: "string option \<Rightarrow> exn + scheduler"

type_synonym 'r model_function = "'r tensor \<Rightarrow> 'r tensor \<Rightarrow> 'r cdict \<Rightarrow> exn + 'r tensor"

text \<open>
  \<^verbatim>\<open>model_options\<close>: the three keys that the file reads. The wrapper receives the denoiser
  and the dict \<^verbatim>\<open>{"input", "timestep", "c", "cond_or_uncond"}\<close>; the guidance function
  receives \<^verbatim>\<open>{"cond", "uncond", "cond_scale", "timestep"}\<close>.
\<close>

record 'r model_options =
  mo_transformer_options :: "topts option"
  mo_model_function_wrapper ::
    "('r model_function \<Rightarrow> 'r tensor \<Rightarrow> 'r tensor \<Rightarrow> 'r cdict \<Rightarrow> nat list \<Rightarrow> exn + 'r tensor) option"
  mo_sampler_cfg_function ::
    "('r tensor \<Rightarrow> 'r tensor option \<Rightarrow> real \<Rightarrow> 'r tensor \<Rightarrow> exn + 'r tensor) option"

text \<open>A loop whose body may raise: the first exception ends it.\<close>

fun for_each :: "('a \<Rightarrow> 's \<Rightarrow> exn + 's) \<Rightarrow> 'a list \<Rightarrow> 's \<Rightarrow> exn + 's" where
  "for_each f [] s = Inr s"
| "for_each f (x # xs) s = bnd (f x s) (for_each f xs)"

text \<open>Reading and deleting a local variable: \<open>None\<close> is a name that is not bound.\<close>

definition py_local :: "'a option \<Rightarrow> exn + 'a" where
  "py_local v = (case v of None \<Rightarrow> Inl UnboundLocalError | Some a \<Rightarrow> Inr a)"

definition py_del :: "'a option \<Rightarrow> exn + 'a option" where
  "py_del v = (case v of None \<Rightarrow> Inl UnboundLocalError | Some a \<Rightarrow> Inr None)"

definition nth_res :: "'a list \<Rightarrow> nat \<Rightarrow> exn + 'a" where
  "nth_res xs i = (if i < length xs then Inr (xs ! i) else Inl IndexError)"

fun dict_set :: "'k \<Rightarrow> 'v \<Rightarrow> ('k \<times> 'v) list \<Rightarrow> ('k \<times> 'v) list" where
  "dict_set k v [] = [(k, v)]"
| "dict_set k v ((k', v') # r) = (if k = k' then (k, v) # r else (k', v') # dict_set k v r)"

section \<open>get\_area\_and\_mult\<close>

text \<open>
  The values that \<^verbatim>\<open>get_area_and_mult\<close> reads from an entry have the type that their use
  asks for; a value of another type under one of these keys is a TypeError.
\<close>

definition as_float :: "'r pyval \<Rightarrow> exn + real" where
  "as_float v = (case v of VFloat r \<Rightarrow> Inr r | _ \<Rightarrow> Inl TypeError)"

definition as_area :: "'r pyval \<Rightarrow> exn + area" where
  "as_area v = (case v of VArea a \<Rightarrow> Inr a | _ \<Rightarrow> Inl TypeError)"

definition as_tensor :: "'r pyval \<Rightarrow> exn + 'r tensor" where
  "as_tensor v = (case v of VTensor t \<Rightarrow> Inr t | _ \<Rightarrow> Inl TypeError)"

text \<open>
  The gating on the timestep (lines 221-228): \<open>Inr True\<close> when the function returns None
  at line 224 or at line 228.
\<close>

definition timestep_gate :: "'r lib \<Rightarrow> 'r entry \<Rightarrow> 'r tensor \<Rightarrow> exn + bool" where
  "timestep_gate L conds timestep_in =
     bnd (case map_of conds ''timestep_start'' of
            None \<Rightarrow> Inr False
          | Some v \<Rightarrow>
              bnd (t_item0 L timestep_in) (\<lambda>t0. bnd (as_float v) (\<lambda>timestep_start.
                Inr (t0 > timestep_start))))
       (\<lambda>gated. if gated then Inr True
          else (case map_of conds ''timestep_end'' of
                  None \<Rightarrow> Inr False
                | Some v \<Rightarrow>
                    bnd (t_item0 L timestep_in) (\<lambda>t0. bnd (as_float v) (\<lambda>timestep_end.
                      Inr (t0 < timestep_end)))))"

text \<open>The mask (lines 235-247), for an area \<open>(a0, a1, a2, a3)\<close> and a strength.\<close>

definition gam_mask :: "'r lib \<Rightarrow> 'r entry \<Rightarrow> 'r tensor \<Rightarrow> 'r tensor \<Rightarrow> area \<Rightarrow> exn + 'r tensor" where
  "gam_mask L conds x_in input_x ar =
     (case map_of conds ''mask'' of
        None \<Rightarrow> Inr (t_ones_like L input_x)
      | Some mv \<Rightarrow>
          bnd (case map_of conds ''mask_strength'' of None \<Rightarrow> Inr 1 | Some v \<Rightarrow> as_float v)
            (\<lambda>mask_strength.
          bnd (as_tensor mv) (\<lambda>mask.
          bnd (shape_at mask 1) (\<lambda>m1. bnd (shape_at x_in 2) (\<lambda>x2.
          if m1 \<noteq> x2 then Inl AssertionError else
          bnd (shape_at mask 2) (\<lambda>m2. bnd (shape_at x_in 3) (\<lambda>x3.
          if m2 \<noteq> x3 then Inl AssertionError else
          bnd (t_crop_mask L mask ar) (\<lambda>cropped.
          bnd (t_mul_scalar L cropped mask_strength) (\<lambda>mask'.
          bnd (size0 input_x) (\<lambda>i0. bnd (size0 mask') (\<lambda>m0.
          if m0 = 0 then Inl ZeroDivisionError else
          bnd (shape_at input_x 1) (\<lambda>i1.
          t_unsqueeze_repeat L mask' (i0 div m0) i1))))))))))))"

text \<open>
  The ramps at the borders of a tile (lines 250-263): \<open>rr = 8\<close>, and the step \<open>t\<close> scales
  one band by \<open>(1 / rr) * (t + 1)\<close>.
\<close>

definition ramp :: "'r lib \<Rightarrow> nat \<Rightarrow> (int \<Rightarrow> int) \<Rightarrow> 'r tensor \<Rightarrow> exn + 'r tensor" where
  "ramp L d lo mult =
     for_each (\<lambda>t m. t_scale_band L m d (lo (int t)) (lo (int t) + 1) ((1 / 8) * (real t + 1)))
       [0..<8] mult"

definition feather :: "'r lib \<Rightarrow> 'r tensor \<Rightarrow> area \<Rightarrow> 'r tensor \<Rightarrow> exn + 'r tensor" where
  "feather L x_in ar mult =
     (case ar of (a0, a1, a2, a3) \<Rightarrow>
        bnd (if a2 \<noteq> 0 then ramp L 2 (\<lambda>t. t) mult else Inr mult) (\<lambda>m1.
        bnd (shape_at x_in 2) (\<lambda>x2.
        bnd (if a0 + a2 < int x2 then ramp L 2 (\<lambda>t. a0 - 1 - t) m1 else Inr m1) (\<lambda>m2.
        bnd (if a3 \<noteq> 0 then ramp L 3 (\<lambda>t. t) m2 else Inr m2) (\<lambda>m3.
        bnd (shape_at x_in 3) (\<lambda>x3.
        if a1 + a3 < int x3 then ramp L 3 (\<lambda>t. a1 - 1 - t) m3 else Inr m3))))))"

text \<open>
  The conditioning dict (lines 265-268), the control (lines 270-272) and the patches
  (lines 274-285). The two dicts are new objects; \<open>n\<close> is the identity that this call gives
  them.
\<close>

definition gam_conditioning ::
  "'r lib \<Rightarrow> oid \<Rightarrow> 'r entry \<Rightarrow> 'r tensor \<Rightarrow> area \<Rightarrow> exn + (string, 'r inner) pydict" where
  "gam_conditioning L n conds x_in ar =
     (case map_of conds ''model_conds'' of
        None \<Rightarrow> Inl KeyError
      | Some (VDict model_conds) \<Rightarrow>
          bnd (sequence (map (\<lambda>(c, v).
                 bnd (size0 x_in) (\<lambda>batch_size.
                 bnd (m_process_cond L v batch_size ar) (\<lambda>v'. Inr (c, v')))) model_conds))
            (\<lambda>items. Inr (n, items))
      | Some _ \<Rightarrow> Inl TypeError)"

definition gam_control :: "'r entry \<Rightarrow> exn + nat option" where
  "gam_control conds =
     (case map_of conds ''control'' of
        None \<Rightarrow> Inr None
      | Some (VControl a) \<Rightarrow> Inr (Some a)
      | Some _ \<Rightarrow> Inl TypeError)"

definition gam_patches ::
  "'r lib \<Rightarrow> oid \<Rightarrow> 'r entry \<Rightarrow> 'r tensor \<Rightarrow> exn + (string, obj list) pydict option" where
  "gam_patches L n conds input_x =
     (case map_of conds ''gligen'' of
        None \<Rightarrow> Inr None
      | Some (VGligen gligen_type gligen_model) \<Rightarrow>
          bnd (if gligen_type = ''position''
               then m_set_position L gligen_model (shape input_x)
               else m_set_empty L gligen_model (shape input_x))
            (\<lambda>gligen_patch. Inr (Some (n, [(''middle_patch'', [gligen_patch])])))
      | Some _ \<Rightarrow> Inl TypeError)"

text \<open>\<^verbatim>\<open>get_area_and_mult\<close> (lines 217-287); \<open>Inr None\<close> is the return value None.\<close>

definition get_area_and_mult ::
  "'r lib \<Rightarrow> oid \<Rightarrow> 'r entry \<Rightarrow> 'r tensor \<Rightarrow> 'r tensor
     \<Rightarrow> exn + ('r, 'r inner, obj) request option" where
  "get_area_and_mult L n conds x_in timestep_in =
     bnd (shape_at x_in 2) (\<lambda>x2. bnd (shape_at x_in 3) (\<lambda>x3.
     bnd (timestep_gate L conds timestep_in) (\<lambda>gated.
     if gated then Inr None else
     bnd (case map_of conds ''area'' of None \<Rightarrow> Inr (int x2, int x3, 0, 0) | Some v \<Rightarrow> as_area v)
       (\<lambda>ar.
     bnd (case map_of conds ''strength'' of None \<Rightarrow> Inr 1 | Some v \<Rightarrow> as_float v) (\<lambda>strength.
     bnd (t_crop L x_in ar) (\<lambda>input_x.
     bnd (gam_mask L conds x_in input_x ar) (\<lambda>mask.
     bnd (t_mul_scalar L mask strength) (\<lambda>mult0.
     bnd (if map_of conds ''mask'' = None then feather L x_in ar mult0 else Inr mult0) (\<lambda>mult.
     bnd (gam_conditioning L n conds x_in ar) (\<lambda>conditionning.
     bnd (gam_control conds) (\<lambda>control.
     bnd (gam_patches L n conds input_x) (\<lambda>patches.
     Inr (Some \<lparr>p_input_x = input_x, p_mult = mult, p_conditioning = conditionning,
                p_area = ar, p_control = control, p_patches = patches\<rparr>)))))))))))))"

section \<open>calc\_cond\_uncond\_batch\<close>

definition COND :: nat where
  "COND = 0"

definition UNCOND :: nat where
  "UNCOND = 1"

type_synonym 'r run = "('r, 'r inner, obj) request \<times> nat"

text \<open>
  The two loops that fill \<^verbatim>\<open>to_run\<close> (lines 350-362): a request that the gating drops is
  skipped. \<open>n\<close> counts the calls of \<^verbatim>\<open>get_area_and_mult\<close>, so that every call makes dicts
  of its own.
\<close>

fun collect ::
  "'r lib \<Rightarrow> 'r tensor \<Rightarrow> 'r tensor \<Rightarrow> nat \<Rightarrow> 'r entry list \<Rightarrow> oid \<Rightarrow> 'r run list
     \<Rightarrow> exn + 'r run list \<times> oid" where
  "collect L x_in timestep branch [] n to_run = Inr (to_run, n)"
| "collect L x_in timestep branch (x_t # rest) n to_run =
     bnd (get_area_and_mult L n x_t x_in timestep) (\<lambda>p.
       case p of
         None \<Rightarrow> collect L x_in timestep branch rest (Suc n) to_run
       | Some r \<Rightarrow> collect L x_in timestep branch rest (Suc n) (to_run @ [(r, branch)]))"

text \<open>
  The choice of the batch (lines 365-379). \<open>to_batch_temp\<close> holds the indices of the
  requests that can be concatenated with the first one, the last index first.
  \<open>batch_search\<close> is the loop over \<open>i\<close>: the first \<open>len(to_batch_temp) // i\<close> indices are
  taken as soon as their area is below \<open>max_total_area\<close>; when the loop ends without a
  \<^verbatim>\<open>break\<close>, \<open>to_batch\<close> is still \<^verbatim>\<open>to_batch_temp[:1]\<close>.
\<close>

definition to_batch_temp_of :: "('c \<Rightarrow> 'c \<Rightarrow> bool) \<Rightarrow> (('r, 'c, 'p) request \<times> nat) list \<Rightarrow> nat list" where
  "to_batch_temp_of cc to_run =
     rev (filter (\<lambda>x_t. can_concat_cond cc (fst (to_run ! x_t)) (fst (to_run ! 0)))
            [0..<length to_run])"

definition batch_area :: "nat \<Rightarrow> nat list \<Rightarrow> exn + nat" where
  "batch_area n first_shape =
     (if 3 < length first_shape
      then Inr (n * (first_shape ! 0) * (first_shape ! 2) * (first_shape ! 3))
      else Inl IndexError)"

fun batch_search :: "nat list \<Rightarrow> nat list \<Rightarrow> int \<Rightarrow> nat list \<Rightarrow> nat list \<Rightarrow> exn + nat list" where
  "batch_search to_batch_temp first_shape max_total_area to_batch [] = Inr to_batch"
| "batch_search to_batch_temp first_shape max_total_area to_batch (i # is) =
     (let batch_amount = take (length to_batch_temp div i) to_batch_temp in
      bnd (batch_area (length batch_amount) first_shape) (\<lambda>a.
        if int a < max_total_area then Inr batch_amount
        else batch_search to_batch_temp first_shape max_total_area to_batch is))"

definition select_batch :: "nat list \<Rightarrow> nat list \<Rightarrow> int \<Rightarrow> exn + nat list" where
  "select_batch to_batch_temp first_shape max_total_area =
     batch_search to_batch_temp first_shape max_total_area (take 1 to_batch_temp)
       [1..<length to_batch_temp + 1]"

text \<open>
  The test of line 377 for the step \<open>i\<close> of the loop, on a shape with four dimensions.
\<close>

definition batch_fits :: "nat list \<Rightarrow> nat list \<Rightarrow> int \<Rightarrow> nat \<Rightarrow> bool" where
  "batch_fits to_batch_temp first_shape max_total_area i =
     (int (length to_batch_temp div i * (first_shape ! 0) * (first_shape ! 2) * (first_shape ! 3))
        < max_total_area)"

text \<open>
  The loop that takes the chosen requests out of \<^verbatim>\<open>to_run\<close> (lines 381-397);
  \<^verbatim>\<open>to_run.pop(x_t)\<close> raises an IndexError outside the list.
\<close>

record 'r batch =
  b_input_x :: "'r tensor list"
  b_mult :: "'r tensor list"
  b_c :: "(string, 'r inner) pydict list"
  b_cond_or_uncond :: "nat list"
  b_area :: "area list"
  b_control :: "nat option"
  b_patches :: "(string, obj list) pydict option"

definition empty_batch :: "'r batch" where
  "empty_batch = \<lparr>b_input_x = [], b_mult = [], b_c = [], b_cond_or_uncond = [], b_area = [],
     b_control = None, b_patches = None\<rparr>"

definition pop_one :: "nat \<Rightarrow> 'r run list \<times> 'r batch \<Rightarrow> exn + 'r run list \<times> 'r batch" where
  "pop_one x_t s =
     (case s of (to_run, b) \<Rightarrow>
        if x_t < length to_run then
          (let o' = to_run ! x_t; p = fst o' in
           Inr (take x_t to_run @ drop (Suc x_t) to_run,
                b\<lparr>b_input_x := b_input_x b @ [p_input_x p],
                  b_mult := b_mult b @ [p_mult p],
                  b_c := b_c b @ [p_conditioning p],
                  b_area := b_area b @ [p_area p],
                  b_cond_or_uncond := b_cond_or_uncond b @ [snd o'],
                  b_control := p_control p,
                  b_patches := p_patches p\<rparr>))
        else Inl IndexError)"

text \<open>
  \<^verbatim>\<open>cond_cat\<close> (lines 319-337): the values are grouped by key, the keys in the order in
  which the dicts first have them, and the first value of a key concatenates the others.
\<close>

definition cond_cat :: "'r lib \<Rightarrow> (string, 'r inner) pydict list \<Rightarrow> exn + 'r cdict" where
  "cond_cat L c_list =
     sequence (map (\<lambda>k.
         case List.map_filter (\<lambda>x_t. lookup x_t k) c_list of
           [] \<Rightarrow> Inl IndexError
         | c0 # cs \<Rightarrow> bnd (m_concat L c0 cs) (\<lambda>t. Inr (k, CTensor t)))
       (rev (remdups (rev (concat (map (\<lambda>x_t. map fst (snd x_t)) c_list))))))"

text \<open>
  The transformer options of one call (lines 407-422). The merged dict \<^verbatim>\<open>cur_patches\<close>
  of lines 413-418 is a local copy that is not stored anywhere.
\<close>

definition call_options :: "'r model_options \<Rightarrow> (string, obj list) pydict option \<Rightarrow> nat list \<Rightarrow> topts" where
  "call_options model_options patches cond_or_uncond =
     (let transformer_options =
            (case mo_transformer_options model_options of
               None \<Rightarrow> \<lparr>to_patches = None, to_cond_or_uncond = None, to_other = []\<rparr>
             | Some t \<Rightarrow> t);
          transformer_options' =
            (case patches of
               None \<Rightarrow> transformer_options
             | Some pd \<Rightarrow>
                 (case to_patches transformer_options of
                    Some cur \<Rightarrow> transformer_options
                  | None \<Rightarrow> transformer_options\<lparr>to_patches := Some (snd pd)\<rparr>))
      in transformer_options'\<lparr>to_cond_or_uncond := Some cond_or_uncond\<rparr>)"

definition call_model ::
  "'r model_function \<Rightarrow> 'r model_options \<Rightarrow> 'r tensor \<Rightarrow> 'r tensor \<Rightarrow> 'r cdict \<Rightarrow> nat list
     \<Rightarrow> exn + 'r tensor" where
  "call_model model_function model_options input_x timestep' c cond_or_uncond =
     (case mo_model_function_wrapper model_options of
        Some wrapper \<Rightarrow> wrapper model_function input_x timestep' c cond_or_uncond
      | None \<Rightarrow> model_function input_x timestep' c)"

text \<open>
  The local variables of the loops of lines 433-449. \<^verbatim>\<open>input_x\<close> and \<^verbatim>\<open>mult\<close> are
  deleted on the way (lines 431, 440 and 449): they are \<open>None\<close> once they are not bound.
  \<open>output_chunks\<close> is the variable \<^verbatim>\<open>output\<close>.
\<close>

record 'r locals =
  out_cond :: "'r tensor"
  out_count :: "'r tensor"
  out_uncond :: "'r tensor"
  out_uncond_count :: "'r tensor"
  output_chunks :: "'r tensor list"
  input_x :: "'r tensor option"
  mult :: "'r tensor list option"

text \<open>\<^verbatim>\<open>buf[area] += output[o] * mult[o]\<close> and \<^verbatim>\<open>count[area] += mult[o]\<close>.\<close>

definition scatter :: "'r lib \<Rightarrow> area list \<Rightarrow> nat \<Rightarrow> 'r locals \<Rightarrow> 'r tensor \<Rightarrow> 'r tensor
    \<Rightarrow> exn + 'r tensor \<times> 'r tensor" where
  "scatter L areas o' s buf count =
     bnd (nth_res areas o') (\<lambda>ar.
     bnd (nth_res (output_chunks s) o') (\<lambda>out_o.
     bnd (py_local (mult s)) (\<lambda>ms.
     bnd (nth_res ms o') (\<lambda>mult_o.
     bnd (t_mul L out_o mult_o) (\<lambda>v.
     bnd (t_crop_iadd L buf ar v) (\<lambda>buf'.
     bnd (t_crop_iadd L count ar mult_o) (\<lambda>count'.
     Inr (buf', count'))))))))"

text \<open>The inner loop (lines 442-448).\<close>

definition inner_body :: "'r lib \<Rightarrow> 'r batch \<Rightarrow> nat \<Rightarrow> 'r locals \<Rightarrow> exn + 'r locals" where
  "inner_body L b o' s =
     bnd (nth_res (b_cond_or_uncond b) o') (\<lambda>branch.
       if branch = COND then
         bnd (scatter L (b_area b) o' s (out_cond s) (out_count s)) (\<lambda>(buf, count).
           Inr (s\<lparr>out_cond := buf, out_count := count\<rparr>))
       else
         bnd (scatter L (b_area b) o' s (out_uncond s) (out_uncond_count s)) (\<lambda>(buf, count).
           Inr (s\<lparr>out_uncond := buf, out_uncond_count := count\<rparr>)))"

text \<open>
  The body of the outer loop (lines 434-449): the scatter of a conditioned chunk or,
  for another chunk, a second call of the denoiser with \<^verbatim>\<open>input_x\<close> (lines 438-439);
  then \<^verbatim>\<open>del input_x\<close> (line 440), the inner loop and \<^verbatim>\<open>del mult\<close> (line 449).
\<close>

definition outer_body ::
  "'r lib \<Rightarrow> 'r model_function \<Rightarrow> 'r tensor \<Rightarrow> 'r cdict \<Rightarrow> 'r batch \<Rightarrow> nat \<Rightarrow> 'r locals
     \<Rightarrow> exn + 'r locals" where
  "outer_body L model_function timestep' c b o' s =
     bnd (nth_res (b_cond_or_uncond b) o') (\<lambda>branch.
     bnd (if branch = COND then
            bnd (scatter L (b_area b) o' s (out_cond s) (out_count s)) (\<lambda>(buf, count).
              Inr (s\<lparr>out_cond := buf, out_count := count\<rparr>))
          else
            bnd (py_local (input_x s)) (\<lambda>ix.
            bnd (model_function ix timestep' c) (\<lambda>y.
            bnd (t_chunk L y (length (b_cond_or_uncond b))) (\<lambda>chunks.
              Inr (s\<lparr>output_chunks := chunks\<rparr>))))) (\<lambda>s1.
     bnd (py_del (input_x s1)) (\<lambda>unbound.
     bnd (for_each (inner_body L b) [0..<length (b_cond_or_uncond b)] (s1\<lparr>input_x := unbound\<rparr>))
       (\<lambda>s2.
     bnd (py_del (mult s2)) (\<lambda>unbound'.
     Inr (s2\<lparr>mult := unbound'\<rparr>))))))"

text \<open>
  The state of the \<^verbatim>\<open>while\<close> loop, and what one run of its body ends with: \<open>Next\<close> when
  it reaches its end and the loop tests its condition again, \<open>Return\<close> at a \<^verbatim>\<open>return\<close>
  statement, \<open>Raise\<close> at an exception.
\<close>

record 'r loop_state =
  to_run :: "'r run list"
  acc_cond :: "'r tensor"
  acc_count :: "'r tensor"
  acc_uncond :: "'r tensor"
  acc_uncond_count :: "'r tensor"

datatype ('s, 'a) flow = Next 's | Return 'a | Raise exn

text \<open>
  One run of the body of the \<^verbatim>\<open>while\<close> loop, lines 365-456. The statements of lines
  451-456 have the indentation of the body (twelve spaces, as line 365), so they belong
  to it: each run divides the buffers and ends at the \<^verbatim>\<open>return\<close> of line 456.
\<close>

definition run_batch ::
  "'r lib \<Rightarrow> heap \<Rightarrow> 'r model_function \<Rightarrow> 'r tensor \<Rightarrow> int \<Rightarrow> 'r model_options \<Rightarrow> 'r loop_state
     \<Rightarrow> exn + 'r tensor \<times> 'r tensor" where
  "run_batch L h model_function timestep max_total_area model_options st =
     bnd (nth_res (to_run st) 0) (\<lambda>first.
     bnd (select_batch (to_batch_temp_of (m_can_concat L) (to_run st))
            (shape (p_input_x (fst first))) max_total_area) (\<lambda>to_batch.
     bnd (for_each pop_one to_batch (to_run st, empty_batch)) (\<lambda>(to_run', b).
     let batch_chunks = length (b_cond_or_uncond b) in
     bnd (t_cat L (b_input_x b)) (\<lambda>input_x'.
     bnd (cond_cat L (b_c b)) (\<lambda>c0.
     bnd (t_cat L (replicate batch_chunks timestep)) (\<lambda>timestep'.
     bnd (case b_control b of
            None \<Rightarrow> Inr c0
          | Some a \<Rightarrow>
              bnd (m_get_control L h a input_x' timestep' c0 batch_chunks) (\<lambda>ctl.
                Inr (dict_set ''control'' (CControl ctl) c0))) (\<lambda>c1.
     let c = dict_set ''transformer_options''
               (COptions (call_options model_options (b_patches b) (b_cond_or_uncond b))) c1 in
     bnd (call_model model_function model_options input_x' timestep' c (b_cond_or_uncond b)) (\<lambda>y.
     bnd (t_chunk L y batch_chunks) (\<lambda>chunks.
     bnd (py_del (Some input_x')) (\<lambda>unbound.
     bnd (for_each (outer_body L model_function timestep' c b) [0..<batch_chunks]
            \<lparr>out_cond = acc_cond st, out_count = acc_count st, out_uncond = acc_uncond st,
             out_uncond_count = acc_uncond_count st, output_chunks = chunks, input_x = unbound,
             mult = Some (b_mult b)\<rparr>) (\<lambda>s.
     bnd (t_idiv L (out_cond s) (out_count s)) (\<lambda>out_cond'.
     bnd (t_idiv L (out_uncond s) (out_uncond_count s)) (\<lambda>out_uncond'.
     Inr (out_cond', out_uncond'))))))))))))))"

definition while_body ::
  "'r lib \<Rightarrow> heap \<Rightarrow> 'r model_function \<Rightarrow> 'r tensor \<Rightarrow> int \<Rightarrow> 'r model_options \<Rightarrow> 'r loop_state
     \<Rightarrow> ('r loop_state, 'r tensor \<times> 'r tensor) flow" where
  "while_body L h model_function timestep max_total_area model_options st =
     (case run_batch L h model_function timestep max_total_area model_options st of
        Inl e \<Rightarrow> Raise e
      | Inr r \<Rightarrow> Return r)"

text \<open>
  The \<^verbatim>\<open>while\<close> loop (line 364). When the condition fails, the function has no statement
  left and returns None (\<open>Inr None\<close>).
\<close>

function while_loop ::
  "'r lib \<Rightarrow> heap \<Rightarrow> 'r model_function \<Rightarrow> 'r tensor \<Rightarrow> int \<Rightarrow> 'r model_options \<Rightarrow> 'r loop_state
     \<Rightarrow> exn + ('r tensor \<times> 'r tensor) option" where
  "while_loop L h model_function timestep max_total_area model_options st =
     (if length (to_run st) > 0 then
        (case while_body L h model_function timestep max_total_area model_options st of
           Next st' \<Rightarrow> while_loop L h model_function timestep max_total_area model_options st'
         | Return r \<Rightarrow> Inr (Some r)
         | Raise e \<Rightarrow> Inl e)
      else Inr None)"
  by pat_completeness auto
termination
  by (relation "measure (\<lambda>(L, h, model_function, timestep, max_total_area, model_options, st).
        length (to_run st))") (auto simp: while_body_def split: sum.splits)

declare while_loop.simps [simp del]

text \<open>
  \<^verbatim>\<open>calc_cond_uncond_batch\<close> (lines 339-456). \<open>cond\<close> and \<open>uncond\<close> are lists of entries
  or None; a loop over None is a TypeError.
\<close>

definition calc_cond_uncond_batch ::
  "'r lib \<Rightarrow> heap \<Rightarrow> 'r model_function \<Rightarrow> 'r entry list option \<Rightarrow> 'r entry list option
     \<Rightarrow> 'r tensor \<Rightarrow> 'r tensor \<Rightarrow> int \<Rightarrow> 'r model_options
     \<Rightarrow> exn + ('r tensor \<times> 'r tensor) option" where
  "calc_cond_uncond_batch L h model_function cond uncond x_in timestep max_total_area model_options =
     bnd (case cond of
            None \<Rightarrow> Inl TypeError
          | Some cs \<Rightarrow> collect L x_in timestep COND cs 0 []) (\<lambda>(to_run1, n).
     bnd (case uncond of
            None \<Rightarrow> Inr (to_run1, n)
          | Some us \<Rightarrow> collect L x_in timestep UNCOND us n to_run1) (\<lambda>(to_run2, n').
     while_loop L h model_function timestep max_total_area model_options
       \<lparr>to_run = to_run2,
        acc_cond = t_zeros_like L x_in,
        acc_count = t_div_scalar L (t_ones_like L x_in) 100000,
        acc_uncond = t_zeros_like L x_in,
        acc_uncond_count = t_div_scalar L (t_ones_like L x_in) 100000\<rparr>))"

section \<open>The state outside the functions\<close>

text \<open>
  The five function references that \<^verbatim>\<open>animatediff_sample\<close> replaces: \<open>Host n\<close> is a
  function of the host (whatever was installed before), the others are the functions of
  this file. A call of a collaborator whose effect lies outside the file is written to the
  log \<open>calls\<close>. \<open>ADGS\<close> is the global variable of line 68, \<open>controls\<close> the store of the
  control objects.
\<close>

datatype fnref =
    Host nat
  | AD_forward_timestep_embed
  | AD_unlimited_batch_area
  | AD_groupnorm_mm_forward
  | AD_sliding_sampling_function

datatype call =
    Inject_params_into_model
  | Inject_motion_module nat
  | Register_schedule
  | Set_scale_multiplier nat
  | Eject_motion_module
  | Reset_scale_multiplier nat
  | Set_sub_idxs nat "int list option"
  | Unload_motion_module nat
  | Use_cached_beta_schedule_and_clean

record world =
  ADGS :: adgs
  controls :: heap
  forward_timestep_embed :: fnref
  maximum_batch_area :: fnref
  GroupNorm_forward :: fnref
  GroupNormAD_forward :: fnref
  sampling_function :: fnref
  calls :: "call list"

section \<open>sliding\_calc\_cond\_uncond\_batch\<close>

record 'r finals =
  cond_final :: "'r tensor"
  uncond_final :: "'r tensor"
  out_count_final :: "'r tensor"

text \<open>The indices of a window in every repetition of the frames (lines 532-535).\<close>

definition full_idxs_of :: "adgs \<Rightarrow> int \<Rightarrow> int list \<Rightarrow> int list" where
  "full_idxs_of g axes_factor ctx_idxs =
     concat (map (\<lambda>n. map (\<lambda>ind. video_length g * int n + ind) ctx_idxs) [0..<nat axes_factor])"

text \<open>
  The body of the loop over the windows (lines 527-546). \<open>x\<close> is the variable of the
  enclosing function. The result of \<^verbatim>\<open>calc_cond_uncond_batch\<close> is unpacked into two
  names: None cannot be unpacked (TypeError).
\<close>

definition window_body ::
  "'r lib \<Rightarrow> nat \<Rightarrow> 'r tensor \<Rightarrow> 'r model_function \<Rightarrow> 'r entry list option \<Rightarrow> 'r entry list option
     \<Rightarrow> 'r tensor \<Rightarrow> int \<Rightarrow> 'r model_options \<Rightarrow> int \<Rightarrow> int list \<Rightarrow> 'r finals \<Rightarrow> world
     \<Rightarrow> (exn + 'r finals) \<times> world" where
  "window_body L fuel x model_function cond uncond timestep max_total_area model_options
       axes_factor ctx_idxs f w =
     (case (if sync_context_to_pe (ADGS w) then
              (let w' = w\<lparr>ADGS := (ADGS w)\<lparr>sub_idxs := Some ctx_idxs\<rparr>\<rparr> in
               case motion_module (ADGS w') of
                 None \<Rightarrow> (Inl AttributeError, w')
               | Some m \<Rightarrow> (Inr (), w'\<lparr>calls := calls w' @ [Set_sub_idxs m (Some ctx_idxs)]\<rparr>))
            else (Inr (), w)) of
        (Inl e, w1) \<Rightarrow> (Inl e, w1)
      | (Inr u, w1) \<Rightarrow>
          (let full_idxs = full_idxs_of (ADGS w1) axes_factor ctx_idxs in
           case bnd (gather x full_idxs) (\<lambda>sub_x. bnd (gather timestep full_idxs) (\<lambda>sub_timestep.
                  Inr (sub_x, sub_timestep))) of
             Inl e \<Rightarrow> (Inl e, w1)
           | Inr (sub_x, sub_timestep) \<Rightarrow>
               (case (case cond of
                        None \<Rightarrow> (Inr None, controls w1)
                      | Some cs \<Rightarrow>
                          (case get_resized_cond fuel (ADGS w1) x full_idxs (controls w1) cs of
                             (r, h) \<Rightarrow> (map_sum id Some r, h))) of
                  (Inl e, h2) \<Rightarrow> (Inl e, w1\<lparr>controls := h2\<rparr>)
                | (Inr sub_cond, h2) \<Rightarrow>
                    (case (case uncond of
                             None \<Rightarrow> (Inr None, h2)
                           | Some us \<Rightarrow>
                               (case get_resized_cond fuel (ADGS w1) x full_idxs h2 us of
                                  (r, h) \<Rightarrow> (map_sum id Some r, h))) of
                       (Inl e, h3) \<Rightarrow> (Inl e, w1\<lparr>controls := h3\<rparr>)
                     | (Inr sub_uncond, h3) \<Rightarrow>
                         (bnd (calc_cond_uncond_batch L h3 model_function sub_cond sub_uncond
                                 sub_x sub_timestep max_total_area model_options) (\<lambda>r.
                          case r of
                            None \<Rightarrow> Inl TypeError
                          | Some (sub_cond_out, sub_uncond_out) \<Rightarrow>
                              bnd (t_index_iadd L (cond_final f) full_idxs sub_cond_out) (\<lambda>cf.
                              bnd (t_index_iadd L (uncond_final f) full_idxs sub_uncond_out) (\<lambda>uf.
                              bnd (t_index_iadd_one L (out_count_final f) full_idxs) (\<lambda>oc.
                              Inr \<lparr>cond_final = cf, uncond_final = uf, out_count_final = oc\<rparr>)))),
                          w1\<lparr>controls := h3\<rparr>)))))"

fun windows_loop ::
  "'r lib \<Rightarrow> nat \<Rightarrow> 'r tensor \<Rightarrow> 'r model_function \<Rightarrow> 'r entry list option \<Rightarrow> 'r entry list option
     \<Rightarrow> 'r tensor \<Rightarrow> int \<Rightarrow> 'r model_options \<Rightarrow> int \<Rightarrow> int list list \<Rightarrow> 'r finals \<Rightarrow> world
     \<Rightarrow> (exn + 'r finals) \<times> world" where
  "windows_loop L fuel x model_function cond uncond timestep max_total_area model_options
       axes_factor [] f w = (Inr f, w)"
| "windows_loop L fuel x model_function cond uncond timestep max_total_area model_options
       axes_factor (ctx_idxs # rest) f w =
     (case window_body L fuel x model_function cond uncond timestep max_total_area model_options
             axes_factor ctx_idxs f w of
        (Inl e, w') \<Rightarrow> (Inl e, w')
      | (Inr f', w') \<Rightarrow>
          windows_loop L fuel x model_function cond uncond timestep max_total_area model_options
            axes_factor rest f' w')"

text \<open>
  \<^verbatim>\<open>sliding_calc_cond_uncond_batch\<close> (lines 460-551). The function reads the variable
  \<open>x\<close> of the enclosing function, not its parameter \<open>x_in\<close>. \<open>fuel\<close> is the depth that the
  recursion limit leaves to \<^verbatim>\<open>prepare_control_objects\<close>. The windows are those that the
  scheduler yields for the current state. The statements of lines 553-565 follow the
  \<^verbatim>\<open>return\<close> of line 551 at the same indentation (eight spaces): they are part of this
  function, and no run reaches them.
\<close>

definition sliding_calc_cond_uncond_batch ::
  "'r lib \<Rightarrow> nat \<Rightarrow> 'r tensor \<Rightarrow> 'r model_function \<Rightarrow> 'r entry list option \<Rightarrow> 'r entry list option
     \<Rightarrow> 'r tensor \<Rightarrow> 'r tensor \<Rightarrow> int \<Rightarrow> 'r model_options \<Rightarrow> world
     \<Rightarrow> (exn + 'r tensor \<times> 'r tensor) \<times> world" where
  "sliding_calc_cond_uncond_batch L fuel x model_function cond uncond x_in timestep
       max_total_area model_options w =
     (let g = ADGS w in
      case get_context_scheduler L (context_schedule g) of
        Inl e \<Rightarrow> (Inl e, w)
      | Inr context_scheduler \<Rightarrow>
      (case bnd (size0 x) (\<lambda>n.
              if video_length g = 0 then Inl ZeroDivisionError
              else Inr (int n div video_length g, n)) of
        Inl e \<Rightarrow> (Inl e, w)
      | Inr (axes_factor, n) \<Rightarrow>
          (case context_scheduler (current_step g) (total_steps g) (video_length g)
                  (context_frames g) (context_stride g) (context_overlap g) (closed_loop g) of
             Inl e \<Rightarrow> (Inl e, w)
           | Inr windows \<Rightarrow>
               (case windows_loop L fuel x model_function cond uncond timestep max_total_area
                       model_options axes_factor windows
                       \<lparr>cond_final = t_zeros_like L x, uncond_final = t_zeros_like L x,
                        out_count_final = t_zeros_count L n\<rparr> w of
                  (Inl e, w') \<Rightarrow> (Inl e, w')
                | (Inr f, w') \<Rightarrow>
                    (bnd (t_idiv L (cond_final f) (out_count_final f)) (\<lambda>cf.
                     bnd (t_idiv L (uncond_final f) (out_count_final f)) (\<lambda>uf.
                     Inr (cf, uf))), w')))))"

section \<open>sliding\_sampling\_function\<close>

text \<open>
  \<^verbatim>\<open>sliding_sampling_function\<close> (lines 216-565). Its body, at an indentation of four
  spaces, is made of six function definitions and nothing else: \<^verbatim>\<open>get_area_and_mult\<close>
  (line 217), \<^verbatim>\<open>cond_equal_size\<close> (289), \<^verbatim>\<open>can_concat_cond\<close> (299), \<^verbatim>\<open>cond_cat\<close> (319),
  \<^verbatim>\<open>calc_cond_uncond_batch\<close> (339) and \<^verbatim>\<open>sliding_calc_cond_uncond_batch\<close> (460). The
  statements that choose between the two paths and combine their results (lines 553-565)
  are indented by eight spaces and stand inside the last of these definitions, after its
  \<^verbatim>\<open>return\<close>. So a call defines the six functions, calls none of them, and returns
  None: \<open>Inr None\<close>, in an unchanged world.
\<close>

definition sliding_sampling_function ::
  "'r lib \<Rightarrow> 'r model_function \<Rightarrow> 'r tensor \<Rightarrow> 'r tensor \<Rightarrow> 'r entry list option
     \<Rightarrow> 'r entry list option \<Rightarrow> real \<Rightarrow> 'r model_options \<Rightarrow> obj option \<Rightarrow> world
     \<Rightarrow> (exn + 'r tensor option) \<times> world" where
  "sliding_sampling_function L model_function x timestep uncond cond cond_scale model_options seed w =
     (Inr None, w)"

section \<open>animatediff\_sample\<close>

text \<open>
  \<^verbatim>\<open>InjectionParams\<close> is declared outside this file; these are the attributes that the
  file reads. \<open>ip_other\<close> stands for the model name, the loras, the motion model settings
  and the beta schedule, which only collaborators look at.
\<close>

record injection_params =
  ip_video_length :: int
  ip_context_length :: "int option"
  ip_context_stride :: "int option"
  ip_context_overlap :: "int option"
  ip_context_schedule :: "string option"
  ip_closed_loop :: bool
  ip_sync_context_to_pe :: bool
  ip_unlimited_area_hack :: bool
  ip_apply_mm_groupnorm_hack :: bool
  ip_other :: obj

definition update_with_inject_params :: "adgs \<Rightarrow> injection_params \<Rightarrow> adgs" where
  "update_with_inject_params g params =
     g\<lparr>video_length := ip_video_length params,
       context_frames := ip_context_length params,
       context_stride := ip_context_stride params,
       context_overlap := ip_context_overlap params,
       context_schedule := ip_context_schedule params,
       closed_loop := ip_closed_loop params,
       sync_context_to_pe := ip_sync_context_to_pe params\<rparr>"

text \<open>
  The arguments of a sampling call. The last positional argument is the latent batch.
  Of the keyword arguments the file reads \<^verbatim>\<open>start_step\<close>, \<^verbatim>\<open>last_step\<close> and
  \<^verbatim>\<open>callback\<close>; a callback receives \<^verbatim>\<open>(step, x0, x, total_steps)\<close>.
\<close>

datatype 'r arg = ATensor "'r tensor" | AOther obj

type_synonym callback = "int \<Rightarrow> obj \<Rightarrow> obj \<Rightarrow> int \<Rightarrow> world \<Rightarrow> (exn + unit) \<times> world"

record kwargs =
  kw_start_step :: "int option"
  kw_last_step :: "int option"
  kw_callback :: "callback option"
  kw_other :: obj

type_synonym ('r, 'a) sample_fn = "obj \<Rightarrow> 'r arg list \<Rightarrow> kwargs \<Rightarrow> world \<Rightarrow> (exn + 'a) \<times> world"

text \<open>
  The collaborators of \<^verbatim>\<open>animatediff_sample\<close>, which the file imports: each is a
  parameter that says what the call returns or raises. \<open>get_injected_mm_params\<close> includes
  the \<^verbatim>\<open>clone()\<close>, \<open>new_beta_cache\<close> is \<^verbatim>\<open>BetaScheduleCache(model)\<close>, and
  \<open>register_schedule\<close> stands for lines 164-166.
\<close>

record ('r, 'a) ext =
  is_injected_mm_params :: "obj \<Rightarrow> bool"
  get_injected_mm_params :: "obj \<Rightarrow> exn + injection_params"
  inject_params_into_model :: "obj \<Rightarrow> injection_params \<Rightarrow> exn + obj"
  new_beta_cache :: "obj \<Rightarrow> exn + obj"
  load_motion_module :: "injection_params \<Rightarrow> obj \<Rightarrow> exn + nat"
  inject_motion_module :: "obj \<Rightarrow> nat \<Rightarrow> injection_params \<Rightarrow> exn + unit"
  register_schedule :: "obj \<Rightarrow> injection_params \<Rightarrow> exn + unit"
  set_scale_multiplier :: "nat \<Rightarrow> injection_params \<Rightarrow> exn + unit"
  wrap_function_to_inject_xformers_bug_info :: "('r, 'a) sample_fn \<Rightarrow> ('r, 'a) sample_fn"
  eject_motion_module :: "obj \<Rightarrow> exn + unit"
  reset_scale_multiplier :: "nat \<Rightarrow> exn + unit"
  set_sub_idxs :: "nat \<Rightarrow> int list option \<Rightarrow> exn + unit"
  has_loras :: "nat \<Rightarrow> exn + bool"
  unload_motion_module :: "nat \<Rightarrow> exn + unit"
  use_cached_beta_schedule_and_clean :: "obj \<Rightarrow> obj \<Rightarrow> exn + unit"

text \<open>
  The local variables that the \<^verbatim>\<open>finally\<close> block reads. \<open>l_motion_module\<close> is None from
  line 122 on, until line 159 binds it; \<open>l_model\<close> is the parameter, rebound at line 133;
  the others are \<open>None\<close> as long as no assignment has bound them.
\<close>

record frame =
  l_motion_module :: "nat option"
  l_model :: obj
  l_orig_forward_timestep_embed :: "fnref option"
  l_orig_maximum_batch_area :: "fnref option"
  l_orig_groupnorm_forward :: "fnref option"
  l_orig_groupnormad_forward :: "fnref option"
  l_orig_sampling_function :: "fnref option"
  l_orig_beta_cache :: "obj option"

definition log_call :: "call \<Rightarrow> world \<Rightarrow> world" where
  "log_call c w = w\<lparr>calls := calls w @ [c]\<rparr>"

definition latents_size :: "'r arg list \<Rightarrow> exn + nat" where
  "latents_size args =
     bnd (py_index args (- 1)) (\<lambda>latents.
       case latents of ATensor t \<Rightarrow> size0 t | AOther v \<Rightarrow> Inl AttributeError)"

text \<open>\<^verbatim>\<open>ad_callback\<close> (lines 180-184).\<close>

definition ad_callback :: "callback option \<Rightarrow> callback" where
  "ad_callback original_callback step x0 x n_steps w =
     (case (case original_callback of
              None \<Rightarrow> (Inr (), w)
            | Some cb \<Rightarrow> cb step x0 x n_steps w) of
        (Inl e, w') \<Rightarrow> (Inl e, w')
      | (Inr u, w') \<Rightarrow>
          (Inr (), w'\<lparr>ADGS := (ADGS w')\<lparr>current_step := start_step (ADGS w') + step + 1\<rparr>\<rparr>))"

text \<open>
  The \<^verbatim>\<open>try\<close> block (lines 128-188): its result, and the local variables and the world
  at the point where it ends.
\<close>

definition try_block ::
  "('r, 'a) ext \<Rightarrow> ('r, 'a) sample_fn \<Rightarrow> obj \<Rightarrow> 'r arg list \<Rightarrow> kwargs \<Rightarrow> world
     \<Rightarrow> (exn + 'a) \<times> frame \<times> world" where
  "try_block X orig_comfy_sample model args kw w =
     (let lv = \<lparr>l_motion_module = None, l_model = model,
                l_orig_forward_timestep_embed = None, l_orig_maximum_batch_area = None,
                l_orig_groupnorm_forward = None, l_orig_groupnormad_forward = None,
                l_orig_sampling_function = None, l_orig_beta_cache = None\<rparr> in
      case get_injected_mm_params X model of
        Inl e \<Rightarrow> (Inl e, lv, w)
      | Inr params0 \<Rightarrow>
      (case latents_size args of
        Inl e \<Rightarrow> (Inl e, lv, w)
      | Inr n \<Rightarrow>
      (let params = params0\<lparr>ip_video_length := int n\<rparr> in
       case inject_params_into_model X model params of
        Inl e \<Rightarrow> (Inl e, lv, w)
      | Inr model' \<Rightarrow>
      (let lv1 = lv\<lparr>l_model := model'\<rparr>;
           w1 = (log_call Inject_params_into_model w)\<lparr>ADGS := reset (ADGS w)\<rparr>;
           lv2 = lv1\<lparr>l_orig_forward_timestep_embed := Some (forward_timestep_embed w1),
                     l_orig_maximum_batch_area := Some (maximum_batch_area w1),
                     l_orig_groupnorm_forward := Some (GroupNorm_forward w1),
                     l_orig_groupnormad_forward := Some (GroupNormAD_forward w1),
                     l_orig_sampling_function := Some (sampling_function w1)\<rparr> in
       case new_beta_cache X model' of
        Inl e \<Rightarrow> (Inl e, lv2, w1)
      | Inr cache \<Rightarrow>
      (let lv3 = lv2\<lparr>l_orig_beta_cache := Some cache\<rparr>;
           w2 = w1\<lparr>forward_timestep_embed := AD_forward_timestep_embed,
                   maximum_batch_area :=
                     (if ip_unlimited_area_hack params then AD_unlimited_batch_area
                      else maximum_batch_area w1),
                   GroupNorm_forward := AD_groupnorm_mm_forward,
                   GroupNormAD_forward :=
                     (if ip_apply_mm_groupnorm_hack params then AD_groupnorm_mm_forward
                      else GroupNormAD_forward w1),
                   sampling_function := AD_sliding_sampling_function\<rparr> in
       case load_motion_module X params model' of
        Inl e \<Rightarrow> (Inl e, lv3, w2)
      | Inr m \<Rightarrow>
      (let lv4 = lv3\<lparr>l_motion_module := Some m\<rparr> in
       case inject_motion_module X model' m params of
        Inl e \<Rightarrow> (Inl e, lv4, w2)
      | Inr u \<Rightarrow>
      (let w3 = log_call (Inject_motion_module m) w2 in
       case register_schedule X model' params of
        Inl e \<Rightarrow> (Inl e, lv4, w3)
      | Inr u \<Rightarrow>
      (let w4 = log_call Register_schedule w3 in
       case set_scale_multiplier X m params of
        Inl e \<Rightarrow> (Inl e, lv4, w4)
      | Inr u \<Rightarrow>
      (let w5 = log_call (Set_scale_multiplier m) w4;
           g1 = update_with_inject_params ((ADGS w5)\<lparr>motion_module := Some m\<rparr>) params;
           g2 = g1\<lparr>start_step := (case kw_start_step kw of None \<Rightarrow> 0 | Some n \<Rightarrow> n)\<rparr>;
           g3 = g2\<lparr>current_step := start_step g2\<rparr>;
           g4 = g3\<lparr>last_step := (case kw_last_step kw of None \<Rightarrow> 0 | Some n \<Rightarrow> n)\<rparr>;
           w6 = w5\<lparr>ADGS := g4\<rparr>;
           kw' = kw\<lparr>kw_callback := Some (ad_callback (kw_callback kw))\<rparr> in
       case wrap_function_to_inject_xformers_bug_info X orig_comfy_sample model' args kw' w6 of
        (r, w7) \<Rightarrow> (r, lv4, w7))))))))))"

text \<open>
  The \<^verbatim>\<open>finally\<close> block (lines 190-210). A method call on \<^verbatim>\<open>motion_module\<close> while it is
  None is an AttributeError; reading a name that is not bound is an UnboundLocalError.
\<close>

definition restoration :: "('r, 'a) ext \<Rightarrow> frame \<Rightarrow> world \<Rightarrow> (exn + unit) \<times> world" where
  "restoration X lv w =
     (case l_orig_maximum_batch_area lv of
        None \<Rightarrow> (Inl UnboundLocalError, w)
      | Some f1 \<Rightarrow>
      (let w1 = w\<lparr>maximum_batch_area := f1\<rparr> in
       case l_orig_forward_timestep_embed lv of
        None \<Rightarrow> (Inl UnboundLocalError, w1)
      | Some f2 \<Rightarrow>
      (let w2 = w1\<lparr>forward_timestep_embed := f2\<rparr> in
       case l_orig_groupnorm_forward lv of
        None \<Rightarrow> (Inl UnboundLocalError, w2)
      | Some f3 \<Rightarrow>
      (let w3 = w2\<lparr>GroupNorm_forward := f3\<rparr> in
       case l_orig_groupnormad_forward lv of
        None \<Rightarrow> (Inl UnboundLocalError, w3)
      | Some f4 \<Rightarrow>
      (let w4 = w3\<lparr>GroupNormAD_forward := f4\<rparr> in
       case l_orig_sampling_function lv of
        None \<Rightarrow> (Inl UnboundLocalError, w4)
      | Some f5 \<Rightarrow>
      (let w5 = w4\<lparr>sampling_function := f5\<rparr> in
       case l_orig_beta_cache lv of
        None \<Rightarrow> (Inl UnboundLocalError, w5)
      | Some cache \<Rightarrow>
      (case use_cached_beta_schedule_and_clean X cache (l_model lv) of
        Inl e \<Rightarrow> (Inl e, w5)
      | Inr u \<Rightarrow>
          (Inr (), (log_call Use_cached_beta_schedule_and_clean w5)\<lparr>ADGS := reset (ADGS w5)\<rparr>))))))))"

definition finally_block :: "('r, 'a) ext \<Rightarrow> frame \<Rightarrow> world \<Rightarrow> (exn + unit) \<times> world" where
  "finally_block X lv w =
     (case eject_motion_module X (l_model lv) of
        Inl e \<Rightarrow> (Inl e, w)
      | Inr u \<Rightarrow>
      (let w1 = log_call Eject_motion_module w in
       case l_motion_module lv of
        None \<Rightarrow> (Inl AttributeError, w1)
      | Some m \<Rightarrow>
      (case reset_scale_multiplier X m of
        Inl e \<Rightarrow> (Inl e, w1)
      | Inr u \<Rightarrow>
      (let w2 = log_call (Reset_scale_multiplier m) w1 in
       case set_sub_idxs X m None of
        Inl e \<Rightarrow> (Inl e, w2)
      | Inr u \<Rightarrow>
      (let w3 = log_call (Set_sub_idxs m None) w2 in
       case has_loras X m of
        Inl e \<Rightarrow> (Inl e, w3)
      | Inr loras \<Rightarrow>
      (case (if loras then
               (case unload_motion_module X m of
                  Inl e \<Rightarrow> (Inl e, w3)
                | Inr u \<Rightarrow> (Inr (), log_call (Unload_motion_module m) w3))
             else (Inr (), w3)) of
        (Inl e, w4) \<Rightarrow> (Inl e, w4)
      | (Inr u, w4) \<Rightarrow> restoration X lv w4))))))"

text \<open>
  \<^verbatim>\<open>animatediff_sample\<close> (lines 121-211). An exception of the \<^verbatim>\<open>finally\<close> block
  replaces the outcome of the \<^verbatim>\<open>try\<close> block; otherwise that outcome stands.
\<close>

definition animatediff_sample ::
  "('r, 'a) ext \<Rightarrow> ('r, 'a) sample_fn \<Rightarrow> obj \<Rightarrow> 'r arg list \<Rightarrow> kwargs \<Rightarrow> world
     \<Rightarrow> (exn + 'a) \<times> world" where
  "animatediff_sample X orig_comfy_sample model args kw w =
     (if \<not> is_injected_mm_params X model then orig_comfy_sample model args kw w
      else
        (case try_block X orig_comfy_sample model args kw w of
           (r, lv, w1) \<Rightarrow>
             (case finally_block X lv w1 of
                (Inl e, w2) \<Rightarrow> (Inl e, w2)
              | (Inr u, w2) \<Rightarrow> (r, w2))))"

section \<open>What the specification says about the size of a batch\<close>

text \<open>
  The specification speaks of a subset whose size is a power of two, found by repeated
  halving. These two definitions follow its words: the sizes that are powers of two, and
  the sizes that halving a group of \<open>n\<close> requests goes through.
\<close>

definition power_of_two :: "nat \<Rightarrow> bool" where
  "power_of_two n = (n \<in> set (map (\<lambda>k. 2 ^ k) [0..<Suc n]))"

fun halvings :: "nat \<Rightarrow> nat list" where
  "halvings n = (if n \<le> 1 then [n] else n # halvings (n div 2))"

declare halvings.simps [simp del]

section \<open>Notions for the statements on the projection\<close>

text \<open>
  The row that the index \<open>i\<close> stands for among the rows \<open>rs\<close>, for \<open>- length rs \<le> i\<close> and
  \<open>i < length rs\<close>: a negative index counts from the end.
\<close>

definition row_at :: "'a list \<Rightarrow> int \<Rightarrow> 'a" where
  "row_at rs i = rs ! nat (if i < 0 then int (length rs) + i else i)"

text \<open>A value that is neither a tensor nor a dict.\<close>

definition opaque_value :: "'r pyval \<Rightarrow> bool" where
  "opaque_value v = (case v of VTensor t \<Rightarrow> False | VDict d \<Rightarrow> False | _ \<Rightarrow> True)"

text \<open>
  An entry without control and without nested dict: no key \<^verbatim>\<open>control\<close>, and every value
  is a tensor with at least one dimension or a value that is neither a tensor nor a dict.
\<close>

definition plain_entry :: "'r entry \<Rightarrow> bool" where
  "plain_entry entry =
     list_all (\<lambda>kv. fst kv \<noteq> ''control''
        \<and> (case snd kv of
             VTensor (Tensor0 v) \<Rightarrow> False
           | VTensor (Tensor tr rs) \<Rightarrow> True
           | VDict d \<Rightarrow> False
           | _ \<Rightarrow> True)) entry"

text \<open>
  A control object with its three window attributes set, and the chain of a control
  object: its address, then the addresses that the links \<^verbatim>\<open>previous_controlnet\<close> lead
  to, as far as \<open>d\<close> steps reach; \<open>None\<close> when the chain has not ended by then or leads to
  an address without an object.
\<close>

definition window_scoped :: "adgs \<Rightarrow> int list \<Rightarrow> control \<Rightarrow> control" where
  "window_scoped g full_idxs c =
     c\<lparr>ctl_sub_idxs := Some (Some full_idxs), full_latent_length := Some (video_length g),
       context_length := context_frames g\<rparr>"



section \<open>Example inputs\<close>

text \<open>
  Concrete inputs for the instances below. \<open>ex_lib\<close> is a small instance of the
  collaborators: a tensor operation returns its first operand, \<^verbatim>\<open>torch.cat\<close> the first
  tensor of a list that is not empty, \<^verbatim>\<open>chunk\<close> as many copies as it is asked for, all
  conditioning values can be concatenated, and the scheduler yields the one window
  \<open>[0]\<close>. The denoiser returns its input.
\<close>

definition ex_request_a :: "(nat, nat, nat) request" where
  "ex_request_a = \<lparr>p_input_x = Tensor [4, 8, 8] [0], p_mult = Tensor [4, 8, 8] [1],
     p_conditioning = (0, [(''c_crossattn'', 7)]), p_area = (8, 8, 0, 0),
     p_control = None, p_patches = None\<rparr>"

definition ex_request_b :: "(nat, nat, nat) request" where
  "ex_request_b = \<lparr>p_input_x = Tensor [4, 8, 8] [5], p_mult = Tensor [4, 8, 8] [1],
     p_conditioning = (1, [(''c_crossattn'', 7)]), p_area = (8, 8, 0, 0),
     p_control = None, p_patches = None\<rparr>"

definition ex_lib :: "nat lib" where
  "ex_lib = \<lparr>
     t_zeros_like = (\<lambda>t. t),
     t_ones_like = (\<lambda>t. t),
     t_div_scalar = (\<lambda>t r. t),
     t_mul_scalar = (\<lambda>t r. Inr t),
     t_item0 = (\<lambda>t. Inr 0),
     t_crop = (\<lambda>t a. Inr t),
     t_crop_mask = (\<lambda>t a. Inr t),
     t_unsqueeze_repeat = (\<lambda>t n c. Inr t),
     t_scale_band = (\<lambda>t d lo hi f. Inr t),
     t_cat = (\<lambda>ts. case ts of [] \<Rightarrow> Inl RuntimeError | t # r \<Rightarrow> Inr t),
     t_chunk = (\<lambda>t n. Inr (replicate n t)),
     t_mul = (\<lambda>a b. Inr a),
     t_crop_iadd = (\<lambda>t a v. Inr t),
     t_idiv = (\<lambda>a b. Inr a),
     t_zeros_count = (\<lambda>n. Tensor [1, 1, 1] (replicate n 0)),
     t_index_iadd = (\<lambda>t idxs v. Inr t),
     t_index_iadd_one = (\<lambda>t idxs. Inr t),
     m_process_cond = (\<lambda>v n a. Inr v),
     m_can_concat = (\<lambda>a b. True),
     m_concat = (\<lambda>c cs. Inr (Tensor [] [])),
     m_set_position = (\<lambda>g sh. Inr 0),
     m_set_empty = (\<lambda>g sh. Inr 0),
     m_get_control = (\<lambda>h a x t c n. Inr 0),
     get_context_scheduler =
       (\<lambda>name. Inr (\<lambda>cur tot len frames stride overlap closed. Inr [[0]]))\<rparr>"

definition ex_model_function :: "nat model_function" where
  "ex_model_function x t c = Inr x"

definition ex_model_options :: "nat model_options" where
  "ex_model_options = \<lparr>mo_transformer_options = None, mo_model_function_wrapper = None,
     mo_sampler_cfg_function = None\<rparr>"

text \<open>
  One conditioning entry without a timestep range, \<^verbatim>\<open>{"model_conds": {}}\<close>; a latent
  batch of one frame, of shape \<open>[1, 4, 8, 8]\<close>; a timestep vector of shape \<open>[1]\<close>.
\<close>

definition ex_cond :: "nat entry list" where
  "ex_cond = [[(''model_conds'', VDict [])]]"

definition ex_x :: "nat tensor" where
  "ex_x = Tensor [4, 8, 8] [0]"

definition ex_timestep :: "nat tensor" where
  "ex_timestep = Tensor [] [0]"

text \<open>
  A batch of sixteen frames, and an entry with a tensor that has one row per frame, a
  tensor with one row, and a number. A store with a chain of two control objects that
  have the attribute \<^verbatim>\<open>sub_idxs\<close> (at the addresses 1 and 2) and a control object that
  does not have it (at the address 3).
\<close>

definition ex_x16 :: "nat tensor" where
  "ex_x16 = Tensor [4, 8, 8] [0, 1, 2, 3, 4, 5, 6, 7, 8, 9, 10, 11, 12, 13, 14, 15]"

definition ex_entry16 :: "nat entry" where
  "ex_entry16 =
     [(''per_frame'', VTensor (Tensor [77]
         [100, 101, 102, 103, 104, 105, 106, 107, 108, 109, 110, 111, 112, 113, 114, 115])),
      (''pooled_output'', VTensor (Tensor [1280] [7])),
      (''strength'', VFloat 1)]"

definition ex_heap :: heap where
  "ex_heap = (\<lambda>a. None)
     (1 \<mapsto> \<lparr>previous_controlnet = Some 2, ctl_sub_idxs = Some None,
             full_latent_length = None, context_length = None\<rparr>,
      2 \<mapsto> \<lparr>previous_controlnet = None, ctl_sub_idxs = Some None,
             full_latent_length = None, context_length = None\<rparr>,
      3 \<mapsto> \<lparr>previous_controlnet = None, ctl_sub_idxs = None,
             full_latent_length = None, context_length = None\<rparr>)"

text \<open>
  A global state without sliding context (\<open>context_frames\<close> is None) for a video of one
  frame, a world whose five function references are those of the host, and the same world
  with a window length of one frame.
\<close>

definition ex_adgs :: adgs where
  "ex_adgs = \<lparr>motion_module = None, start_step = 0, last_step = 0, current_step = 0,
     total_steps = 0, video_length = 1, context_frames = None, context_stride = None,
     context_overlap = None, context_schedule = None, closed_loop = False,
     sync_context_to_pe = False, sub_idxs = None\<rparr>"

definition ex_world :: world where
  "ex_world = \<lparr>ADGS = ex_adgs, controls = (\<lambda>a. None), forward_timestep_embed = Host 0,
     maximum_batch_area = Host 1, GroupNorm_forward = Host 2, GroupNormAD_forward = Host 3,
     sampling_function = Host 4, calls = []\<rparr>"

definition ex_world_sliding :: world where
  "ex_world_sliding = ex_world\<lparr>ADGS := ex_adgs\<lparr>context_frames := Some 1\<rparr>\<rparr>"




text \<open>
  Collaborators for \<^verbatim>\<open>animatediff_sample\<close>: the model 1 has injected parameters, the model
  0 has none; loading the motion module raises (as it does when the file of the motion
  model is missing), every other collaborator returns. The original sampling function
  returns the number of its positional arguments.
\<close>

definition ex_params :: injection_params where
  "ex_params = \<lparr>ip_video_length = 0, ip_context_length = None, ip_context_stride = None,
     ip_context_overlap = None, ip_context_schedule = None, ip_closed_loop = False,
     ip_sync_context_to_pe = False, ip_unlimited_area_hack = False,
     ip_apply_mm_groupnorm_hack = True, ip_other = 0\<rparr>"

definition ex_sample :: "(nat, nat) sample_fn" where
  "ex_sample model args kw w = (Inr (length args), w)"

definition ex_ext :: "(nat, nat) ext" where
  "ex_ext = \<lparr>
     is_injected_mm_params = (\<lambda>m. m = 1),
     get_injected_mm_params = (\<lambda>m. Inr ex_params),
     inject_params_into_model = (\<lambda>m p. Inr m),
     new_beta_cache = (\<lambda>m. Inr 0),
     load_motion_module = (\<lambda>p m. Inl (Raised 7)),
     inject_motion_module = (\<lambda>m mm p. Inr ()),
     register_schedule = (\<lambda>m p. Inr ()),
     set_scale_multiplier = (\<lambda>mm p. Inr ()),
     wrap_function_to_inject_xformers_bug_info = (\<lambda>f. f),
     eject_motion_module = (\<lambda>m. Inr ()),
     reset_scale_multiplier = (\<lambda>mm. Inr ()),
     set_sub_idxs = (\<lambda>mm idxs. Inr ()),
     has_loras = (\<lambda>mm. Inr False),
     unload_motion_module = (\<lambda>mm. Inr ()),
     use_cached_beta_schedule_and_clean = (\<lambda>c m. Inr ())\<rparr>"

definition ex_kwargs :: kwargs where
  "ex_kwargs = \<lparr>kw_start_step = None, kw_last_step = None, kw_callback = None, kw_other = 0\<rparr>"

section \<open>Auxiliary facts\<close>

lemma bnd_Inl [simp]: "bnd (Inl e) f = Inl e"
  by (simp add: bnd_def)

lemma bnd_Inr [simp]: "bnd (Inr v) f = f v"
  by (simp add: bnd_def)

lemma bnd_eq_Inr: "bnd m f = Inr r \<longleftrightarrow> (\<exists>v. m = Inr v \<and> f v = Inr r)"
  by (cases m) auto

section \<open>Properties of the merge-compatibility predicate\<close>

lemma can_concat_cond_refl: "can_concat_cond cc a a"
  by (simp add: can_concat_cond_def cond_equal_size_def)




section \<open>The choice of a batch\<close>

lemma batch_search_find:
  assumes "3 < length fs" and "\<forall>i\<in>set js. 1 \<le> i \<and> i \<le> length tbt"
  shows "batch_search tbt fs mta tb js =
     (case find (batch_fits tbt fs mta) js of
        None \<Rightarrow> Inr tb
      | Some i \<Rightarrow> Inr (take (length tbt div i) tbt))"
  using assms
proof (induction js)
  case Nil
  then show ?case by simp
next
  case (Cons i js)
  then have "length tbt div i \<le> length tbt" by simp
  then have len: "length (take (length tbt div i) tbt) = length tbt div i" by simp
  show ?case using Cons
    by (simp add: batch_area_def batch_fits_def Let_def len del: length_take)
qed

lemma select_batch_find:
  assumes "3 < length fs"
  shows "select_batch tbt fs mta =
     (case find (batch_fits tbt fs mta) [1..<length tbt + 1] of
        None \<Rightarrow> Inr (take 1 tbt)
      | Some i \<Rightarrow> Inr (take (length tbt div i) tbt))"
  unfolding select_batch_def using assms by (intro batch_search_find) auto

lemma select_batch_first_fit_aux:
  assumes "tbt \<noteq> []" and "3 < length fs"
  shows "\<exists>i\<in>{1..length tbt}.
           select_batch tbt fs mta = Inr (take (length tbt div i) tbt)
         \<and> 1 \<le> length tbt div i
         \<and> (\<forall>j\<in>{1..<i}. \<not> batch_fits tbt fs mta j)
         \<and> (batch_fits tbt fs mta i \<or> i = length tbt)"
proof (cases "find (batch_fits tbt fs mta) [1..<length tbt + 1]")
  case None
  then have no: "\<forall>j\<in>{1..length tbt}. \<not> batch_fits tbt fs mta j"
    by (auto simp: find_None_iff)
  have n: "1 \<le> length tbt" using assms(1) by (cases tbt) auto
  have d: "length tbt div length tbt = 1" using n by (intro div_self) auto
  then have "select_batch tbt fs mta = Inr (take (length tbt div length tbt) tbt)"
    using None by (simp add: select_batch_find [OF assms(2)] del: upt_Suc)
  with no n d show ?thesis
    by (intro bexI [of _ "length tbt"]) auto
next
  case (Some i)
  have len: "length [1..<length tbt + 1] = length tbt"
    by (simp del: upt_Suc)
  have nth: "[1..<length tbt + 1] ! j = 1 + j" if "j < length tbt" for j
    using that by (intro nth_upt) simp
  from Some obtain k where k: "k < length tbt"
      "batch_fits tbt fs mta ([1..<length tbt + 1] ! k)"
      "i = [1..<length tbt + 1] ! k"
      "\<forall>j<k. \<not> batch_fits tbt fs mta ([1..<length tbt + 1] ! j)"
    unfolding find_Some_iff len by blast
  then have i: "i = 1 + k" "k < length tbt" using nth [of k] by (simp_all del: upt_Suc)
  have before: "\<forall>j\<in>{1..<i}. \<not> batch_fits tbt fs mta j"
  proof
    fix j assume j: "j \<in> {1..<i}"
    then have "j - 1 < k" using i by auto
    moreover have "[1..<length tbt + 1] ! (j - 1) = j"
      using i j nth [of "j - 1"] by (simp del: upt_Suc)
    ultimately show "\<not> batch_fits tbt fs mta j" using k(4) by metis
  qed
  have "1 \<le> length tbt div i" using i
    by (simp add: Suc_leI div_greater_zero_iff)
  moreover have "select_batch tbt fs mta = Inr (take (length tbt div i) tbt)"
    using Some by (simp add: select_batch_find [OF assms(2)])
  moreover have "batch_fits tbt fs mta i" using k(2,3) by simp
  moreover have "i \<in> {1..length tbt}" using i by auto
  ultimately show ?thesis using before by blast
qed

lemma to_batch_temp_nonempty:
  assumes "runs \<noteq> []"
  shows "to_batch_temp_of cc runs \<noteq> []"
proof -
  have "0 \<in> set (filter (\<lambda>x_t. can_concat_cond cc (fst (runs ! x_t)) (fst (runs ! 0)))
            [0..<length runs])"
    using assms by (simp add: can_concat_cond_refl)
  then have "filter (\<lambda>x_t. can_concat_cond cc (fst (runs ! x_t)) (fst (runs ! 0)))
            [0..<length runs] \<noteq> []"
    by (metis empty_iff empty_set)
  then show ?thesis
    unfolding to_batch_temp_of_def by simp
qed

lemma to_batch_temp_mergeable:
  assumes "x_t \<in> set (to_batch_temp_of cc runs)"
  shows "x_t < length runs \<and> can_concat_cond cc (fst (runs ! x_t)) (fst (runs ! 0))"
  using assms by (auto simp: to_batch_temp_of_def)

lemma select_batch_nonempty:
  assumes "tbt \<noteq> []" and "select_batch tbt fs mta = Inr tb"
  shows "tb \<noteq> []"
proof (cases "3 < length fs")
  case True
  from select_batch_first_fit_aux [OF assms(1) True, of mta]
  obtain i where "select_batch tbt fs mta = Inr (take (length tbt div i) tbt)"
    and "1 \<le> length tbt div i" by blast
  with assms show ?thesis by auto
next
  case False
  have "1 < length tbt + 1" using assms(1) by (cases tbt) simp_all
  then have n: "[1..<length tbt + 1] = 1 # [Suc 1..<length tbt + 1]"
    by (rule upt_conv_Cons)
  show ?thesis using assms(2) False unfolding select_batch_def n
    by (simp add: batch_area_def)
qed

text \<open>
  Claim C7, as amended. Among the pending requests that can be merged with the first
  pending one, taken from the last index to the first (\<open>to_batch_temp\<close>, \<open>n\<close> of them, never
  none), the batch planner takes the first \<open>n div i\<close> for the least \<open>i\<close> in \<open>1..n\<close> whose
  area, count times batch size times tile height times tile width, is strictly below the
  area budget; when no \<open>i\<close> fits it takes one request, which is what \<open>i = n\<close> gives. So
  the batch is never empty, every request in it is mergeable with the first, and a budget
  that does not exceed the area of one request leaves exactly one request in the batch:
  the last one of the group. The sizes \<open>n div i\<close> need not be powers of two.
\<close>

theorem select_batch_first_fit:
  fixes runs :: "(('r, 'c, 'p) request \<times> nat) list" and cc :: "'c \<Rightarrow> 'c \<Rightarrow> bool"
  assumes "runs \<noteq> []" and "3 < length first_shape"
  defines "tbt \<equiv> to_batch_temp_of cc runs"
  shows "tbt \<noteq> []
       \<and> (\<exists>i\<in>{1..length tbt}.
            select_batch tbt first_shape max_total_area = Inr (take (length tbt div i) tbt)
          \<and> 1 \<le> length tbt div i
          \<and> (\<forall>j\<in>{1..<i}. \<not> batch_fits tbt first_shape max_total_area j)
          \<and> (batch_fits tbt first_shape max_total_area i \<or> i = length tbt))
       \<and> (\<forall>x_t\<in>set tbt. x_t < length runs \<and> can_concat_cond cc (fst (runs ! x_t)) (fst (runs ! 0)))
       \<and> (max_total_area \<le> int ((first_shape ! 0) * (first_shape ! 2) * (first_shape ! 3))
            \<longrightarrow> select_batch tbt first_shape max_total_area = Inr [hd tbt])"
proof -
  have ne: "tbt \<noteq> []"
    unfolding tbt_def using assms(1) by (rule to_batch_temp_nonempty)
  from select_batch_first_fit_aux [OF ne assms(2), of max_total_area]
  obtain i where i: "i \<in> {1..length tbt}"
      "select_batch tbt first_shape max_total_area = Inr (take (length tbt div i) tbt)"
      "1 \<le> length tbt div i"
      "\<forall>j\<in>{1..<i}. \<not> batch_fits tbt first_shape max_total_area j"
      "batch_fits tbt first_shape max_total_area i \<or> i = length tbt"
    by blast
  have merge: "\<forall>x_t\<in>set tbt. x_t < length runs
      \<and> can_concat_cond cc (fst (runs ! x_t)) (fst (runs ! 0))"
    unfolding tbt_def using to_batch_temp_mergeable by blast
  have small: "select_batch tbt first_shape max_total_area = Inr [hd tbt]"
    if le: "max_total_area \<le> int ((first_shape ! 0) * (first_shape ! 2) * (first_shape ! 3))"
  proof -
    have "\<not> batch_fits tbt first_shape max_total_area i"
    proof -
      let ?a = "(first_shape ! 0) * (first_shape ! 2) * (first_shape ! 3)"
      have "1 * ?a \<le> (length tbt div i) * ?a"
        using i(3) by (rule mult_le_mono1)
      moreover have "(length tbt div i) * ?a
          = length tbt div i * (first_shape ! 0) * (first_shape ! 2) * (first_shape ! 3)"
        by (simp only: mult.assoc)
      ultimately have "?a
          \<le> length tbt div i * (first_shape ! 0) * (first_shape ! 2) * (first_shape ! 3)"
        by simp
      then have "int ?a
          \<le> int (length tbt div i * (first_shape ! 0) * (first_shape ! 2) * (first_shape ! 3))"
        by (simp only: of_nat_le_iff)
      with le show ?thesis unfolding batch_fits_def by linarith
    qed
    with i(5) have "i = length tbt" by simp
    moreover have "length tbt div length tbt = 1" using ne by (intro div_self) auto
    ultimately have "select_batch tbt first_shape max_total_area = Inr (take 1 tbt)"
      using i(2) by simp
    with ne show ?thesis by (cases tbt) auto
  qed
  from ne i merge small show ?thesis by blast
qed

text \<open>
  An instance of the amended C7: three requests that can all be merged, each of shape
  \<open>[1, 4, 8, 8]\<close> and so of area 64. With a budget of 200 the three of them are taken
  (192 < 200); with a budget of 64 exactly one is, the last.
\<close>

theorem select_batch_first_fit_witness:
  "to_batch_temp_of (=) [(ex_request_a, COND), (ex_request_b, COND), (ex_request_a, UNCOND)] = [2, 1, 0]
   \<and> select_batch [2, 1, 0] [1, 4, 8, 8] 200 = Inr [2, 1, 0]
   \<and> select_batch
        (to_batch_temp_of (=) [(ex_request_a, COND), (ex_request_b, COND), (ex_request_a, UNCOND)])
        [1, 4, 8, 8] 64 = Inr [2]"
proof -
  let ?runs = "[(ex_request_a, COND), (ex_request_b, COND), (ex_request_a, UNCOND)]"
  have tbt: "to_batch_temp_of (=) ?runs = [2, 1, 0]"
    by (simp add: to_batch_temp_of_def can_concat_cond_def cond_equal_size_def
        ex_request_a_def ex_request_b_def ident_def keys_def lookup_def upt_conv_Cons)
  have big: "select_batch [2, 1, 0] [1, 4, 8, 8] 200 = Inr [2, 1, 0]"
    by code_simp
  have h1: "?runs \<noteq> []" by simp
  have h2: "3 < length [1, 4, 8, 8::nat]" by simp
  have "(64::int) \<le> int (([1, 4, 8, 8] ! 0) * ([1, 4, 8, 8] ! 2) * ([1, 4, 8, 8] ! 3))"
    by simp
  with select_batch_first_fit [OF h1 h2, of "(=)" 64]
  have "select_batch (to_batch_temp_of (=) ?runs) [1, 4, 8, 8] 64
      = Inr [hd (to_batch_temp_of (=) ?runs)]"
    by blast
  with tbt big show ?thesis by simp
qed

text \<open>
  Claim C7 as the specification states it fails: nine mergeable requests of area 1 and a
  budget of 4. Line 377 rejects \<open>9 div 1 = 9\<close> and \<open>9 div 2 = 4\<close> requests (4 is not below
  4) and accepts \<open>9 div 3 = 3\<close>: the batch has three requests. Three is not a power of two,
  and it is none of the sizes 9, 4, 2, 1 that halving goes through.
\<close>

theorem select_batch_counterexample:
  "select_batch [8, 7, 6, 5, 4, 3, 2, 1, 0] [1, 4, 1, 1] 4 = Inr [8, 7, 6]
   \<and> \<not> power_of_two (length [8, 7, 6 :: nat])
   \<and> length [8, 7, 6 :: nat] \<notin> set (halvings 9)"
proof -
  have "select_batch [8, 7, 6, 5, 4, 3, 2, 1, 0] [1, 4, 1, 1] 4 = Inr [8, 7, 6]"
    by code_simp
  moreover have "\<not> power_of_two (length [8, 7, 6 :: nat])"
    by code_simp
  moreover have "length [8, 7, 6 :: nat] \<notin> set (halvings 9)"
    by code_simp
  ultimately show ?thesis by blast
qed

section \<open>The batch planner never returns its buffers\<close>

lemma pop_one_length:
  assumes "pop_one x_t (runs, b) = Inr (runs', b')"
  shows "length (b_cond_or_uncond b') = Suc (length (b_cond_or_uncond b))"
  using assms by (auto simp: pop_one_def Let_def split: if_splits)

lemma for_each_pop_length:
  assumes "for_each pop_one tb (runs, b) = Inr (runs', b')"
  shows "length (b_cond_or_uncond b') = length (b_cond_or_uncond b) + length tb"
  using assms
proof (induction tb arbitrary: runs b)
  case Nil
  then show ?case by simp
next
  case (Cons x_t tb)
  from Cons.prems obtain runs1 b1 where one: "pop_one x_t (runs, b) = Inr (runs1, b1)"
    and rest: "for_each pop_one tb (runs1, b1) = Inr (runs', b')"
    by (cases "pop_one x_t (runs, b)") auto
  from Cons.IH [OF rest] pop_one_length [OF one] show ?case by simp
qed

text \<open>
  Line 431 has deleted \<^verbatim>\<open>input_x\<close> when the loop of line 433 starts. Its body reads the
  name at line 439 or deletes it again at line 440, so the first run of the body raises.
\<close>

lemma outer_body_unbound:
  assumes "input_x s = None"
  shows "\<exists>e. outer_body L mf ts c b n s = Inl e"
proof (cases "nth_res (b_cond_or_uncond b) n")
  case (Inl e)
  then show ?thesis by (simp add: outer_body_def)
next
  case (Inr branch)
  show ?thesis
  proof (cases "branch = COND")
    case True
    show ?thesis
    proof (cases "scatter L (b_area b) n s (out_cond s) (out_count s)")
      case (Inl e)
      with Inr True show ?thesis by (simp add: outer_body_def)
    next
      case (Inr r)
      with \<open>nth_res (b_cond_or_uncond b) n = Inr branch\<close> True assms show ?thesis
        by (cases r) (simp add: outer_body_def py_del_def)
    qed
  next
    case False
    with Inr assms show ?thesis by (simp add: outer_body_def py_local_def)
  qed
qed

lemma for_each_outer_raises:
  assumes "input_x s = None" and "0 < n"
  shows "for_each (outer_body L mf ts c b) [0..<n] s \<noteq> Inr s'"
proof -
  from assms(2) have "[0..<n] = 0 # [Suc 0..<n]" by (rule upt_conv_Cons)
  moreover from outer_body_unbound [OF assms(1)] obtain e where
    "outer_body L mf ts c b 0 s = Inl e" by blast
  ultimately show ?thesis by simp
qed

lemma run_batch_raises: "run_batch L h mf ts mta mo st \<noteq> Inr r"
proof
  assume "run_batch L h mf ts mta mo st = Inr r"
  then obtain req br to_batch runs' b chunks s0 c tsx where
    first: "nth_res (to_run st) 0 = Inr (req, br)" and
    sel: "select_batch (to_batch_temp_of (m_can_concat L) (to_run st))
            (shape (p_input_x req)) mta = Inr to_batch" and
    pop: "for_each pop_one to_batch (to_run st, empty_batch) = Inr (runs', b)" and
    loop: "for_each (outer_body L mf tsx c b) [0..<length (b_cond_or_uncond b)]
            \<lparr>out_cond = acc_cond st, out_count = acc_count st, out_uncond = acc_uncond st,
             out_uncond_count = acc_uncond_count st, output_chunks = chunks, input_x = None,
             mult = Some (b_mult b)\<rparr> = Inr s0"
    by (auto simp: run_batch_def bnd_eq_Inr Let_def py_del_def split: prod.splits)
  from first have "to_run st \<noteq> []" by (auto simp: nth_res_def split: if_splits)
  then have "to_batch_temp_of (m_can_concat L) (to_run st) \<noteq> []"
    by (rule to_batch_temp_nonempty)
  from select_batch_nonempty [OF this sel] have "to_batch \<noteq> []" .
  with for_each_pop_length [OF pop] have "0 < length (b_cond_or_uncond b)"
    by simp
  from for_each_outer_raises [OF _ this] loop show False
    by (metis locals.select_convs(6))
qed

lemma while_loop_cases:
  "while_loop L h mf ts mta mo st =
     (if to_run st = [] then Inr None
      else case run_batch L h mf ts mta mo st of Inl e \<Rightarrow> Inl e | Inr r \<Rightarrow> Inr (Some r))"
  by (subst while_loop.simps) (simp add: while_body_def split: sum.splits)

lemma while_loop_never_returns: "while_loop L h mf ts mta mo st \<noteq> Inr (Some r)"
  using run_batch_raises [of L h mf ts mta mo st]
  by (cases "run_batch L h mf ts mta mo st") (auto simp: while_loop_cases)

lemma calc_never_returns: "calc_cond_uncond_batch L h mf cnd uncnd x_in ts mta mo \<noteq> Inr (Some r)"
  unfolding calc_cond_uncond_batch_def
  by (auto simp: bnd_eq_Inr while_loop_never_returns split: prod.splits)

lemma calc_example:
  "calc_cond_uncond_batch ex_lib (\<lambda>a. None) ex_model_function (Some ex_cond) None ex_x
     ex_timestep 1000 ex_model_options = Inl UnboundLocalError"
  by code_simp

text \<open>
  Claim C1 says that the batching loop of \<^verbatim>\<open>calc_cond_uncond_batch\<close> repeats until all
  requests that pass the gating are consumed, and that the two accumulated buffers are
  divided by their counts and returned after that. The code does not do so. For every
  input, the function never returns a pair of buffers: it returns None when the gating
  leaves no request, and raises otherwise, in the first run of the loop of line 433. At
  the example input (one conditioning entry, one frame) the exception is the
  UnboundLocalError of \<^verbatim>\<open>del input_x\<close> at line 440.
\<close>

theorem calc_cond_uncond_batch_never_returns_buffers:
  "calc_cond_uncond_batch L h mf cnd uncnd x_in ts mta mo \<noteq> Inr (Some r)
   \<and> calc_cond_uncond_batch ex_lib (\<lambda>a. None) ex_model_function (Some ex_cond) None ex_x
        ex_timestep 1000 ex_model_options = Inl UnboundLocalError"
  using calc_never_returns calc_example by blast

section \<open>The sliding path and the denoising step\<close>

lemma window_body_raises:
  "fst (window_body L fuel x mf cnd uncnd ts mta mo af ctx_idxs f w) \<noteq> Inr f'"
proof
  assume a: "fst (window_body L fuel x mf cnd uncnd ts mta mo af ctx_idxs f w) = Inr f'"
  have calc: "bnd (calc_cond_uncond_batch L h mf sc su sx st mta mo) (\<lambda>r.
          case r of
            None \<Rightarrow> Inl TypeError
          | Some (sub_cond_out, sub_uncond_out) \<Rightarrow> k sub_cond_out sub_uncond_out) \<noteq> Inr f'"
    for h sc su sx st k
    using calc_never_returns [of L h mf sc su sx st mta mo]
    by (cases "calc_cond_uncond_batch L h mf sc su sx st mta mo")
      (auto split: option.splits)
  from a show False
    unfolding window_body_def Let_def
    by (auto simp: calc split: if_splits sum.splits prod.splits option.splits)
qed

lemma windows_loop_raises:
  "fst (windows_loop L fuel x mf cnd uncnd ts mta mo af (ctx_idxs # rest) f w) \<noteq> Inr f'"
  using window_body_raises [of L fuel x mf cnd uncnd ts mta mo af ctx_idxs f w]
  by (cases "window_body L fuel x mf cnd uncnd ts mta mo af ctx_idxs f w")
    (auto split: sum.splits)

text \<open>
  Claim C3 says that in \<^verbatim>\<open>sliding_calc_cond_uncond_batch\<close> each window adds its
  sub-result to the output buffers, raises the usage count of its frames by one, and that
  the buffers are divided by the counts after the last window. The code does not get
  there: whenever the scheduler yields at least one window, the call raises, because the
  batch planner that it calls for the first window never returns a pair (claim C1). The
  count buffers do start as the claim says, at zero here (line 469) and at 1/100000 in
  the batch planner (lines 341 and 344).
\<close>

theorem sliding_raises_at_first_window:
  assumes "get_context_scheduler L (context_schedule (ADGS w)) = Inr context_scheduler"
    and "context_scheduler (current_step (ADGS w)) (total_steps (ADGS w)) (video_length (ADGS w))
           (context_frames (ADGS w)) (context_stride (ADGS w)) (context_overlap (ADGS w))
           (closed_loop (ADGS w)) = Inr (ctx_idxs # rest)"
  shows "\<exists>e. fst (sliding_calc_cond_uncond_batch L fuel x mf cnd uncnd x_in ts mta mo w) = Inl e"
proof (cases "bnd (size0 x) (\<lambda>n.
             if video_length (ADGS w) = 0 then Inl ZeroDivisionError
             else Inr (int n div video_length (ADGS w), n))")
  case (Inl e)
  with assms(1) show ?thesis by (simp add: sliding_calc_cond_uncond_batch_def Let_def)
next
  case (Inr p)
  obtain af n where p: "p = (af, n)" by (cases p)
  let ?loop = "windows_loop L fuel x mf cnd uncnd ts mta mo af (ctx_idxs # rest)
       \<lparr>cond_final = t_zeros_like L x, uncond_final = t_zeros_like L x,
        out_count_final = t_zeros_count L n\<rparr> w"
  obtain r w' where loop: "?loop = (r, w')" by (cases ?loop)
  have "fst ?loop \<noteq> Inr b" for b
    by (rule windows_loop_raises)
  with loop have "r \<noteq> Inr b" for b
    by (simp del: windows_loop.simps)
  then obtain e where "r = Inl e" by (cases r) auto
  with Inr p loop assms show ?thesis
    by (simp add: sliding_calc_cond_uncond_batch_def Let_def del: windows_loop.simps)
qed

text \<open>
  An instance of the statement on C3: one frame, the window \<open>[0]\<close>, one conditioning
  entry. The call raises the UnboundLocalError of line 440.
\<close>

theorem sliding_raises_at_first_window_witness:
  "(\<exists>e. fst (sliding_calc_cond_uncond_batch ex_lib 1000 ex_x ex_model_function (Some ex_cond) None
        ex_x ex_timestep 1000 ex_model_options ex_world_sliding) = Inl e)
   \<and> fst (sliding_calc_cond_uncond_batch ex_lib 1000 ex_x ex_model_function (Some ex_cond) None
        ex_x ex_timestep 1000 ex_model_options ex_world_sliding) = Inl UnboundLocalError"
proof -
  let ?sched = "\<lambda>cur tot len frames stride overlap closed. Inr [[0]] :: exn + int list list"
  have look: "get_context_scheduler ex_lib (context_schedule (ADGS ex_world_sliding)) = Inr ?sched"
    by (simp add: ex_lib_def)
  have wins: "?sched (current_step (ADGS ex_world_sliding)) (total_steps (ADGS ex_world_sliding))
          (video_length (ADGS ex_world_sliding)) (context_frames (ADGS ex_world_sliding))
          (context_stride (ADGS ex_world_sliding)) (context_overlap (ADGS ex_world_sliding))
          (closed_loop (ADGS ex_world_sliding)) = Inr ([0] # [])"
    by simp
  from sliding_raises_at_first_window [OF look wins]
  have "\<exists>e. fst (sliding_calc_cond_uncond_batch ex_lib 1000 ex_x ex_model_function
        (Some ex_cond) None ex_x ex_timestep 1000 ex_model_options ex_world_sliding) = Inl e" .
  moreover have "fst (sliding_calc_cond_uncond_batch ex_lib 1000 ex_x ex_model_function
        (Some ex_cond) None ex_x ex_timestep 1000 ex_model_options ex_world_sliding)
      = Inl UnboundLocalError"
    by code_simp
  ultimately show ?thesis by blast
qed

text \<open>
  Claim C2 says that \<^verbatim>\<open>sliding_sampling_function\<close> returns the combination
  \<open>uncond + (cond - uncond) * cond_scale\<close> of two tensors and never returns None. The code
  returns None on every call: the statements that compute the combination (lines 553-565)
  are not part of the body of the function.
\<close>

theorem sliding_sampling_function_returns_None:
  "fst (sliding_sampling_function L mf x ts uncnd cnd cond_scale mo seed w) = Inr None"
  by (simp add: sliding_sampling_function_def)

text \<open>
  Claim C4 says that without an active window length the denoising step gives the output
  of \<^verbatim>\<open>calc_cond_uncond_batch\<close>, called once on the full batch. In the code the step
  calls nothing: whatever the state, it returns None and leaves the world as it was. At
  the example input, where no sliding context is in use, a direct call of the batch planner
  raises an UnboundLocalError, while the step returns None.
\<close>

theorem sliding_sampling_function_calls_nothing:
  "sliding_sampling_function L mf x ts uncnd cnd cond_scale mo seed w = (Inr None, w)
   \<and> \<not> is_using_sliding_context (ADGS ex_world)
   \<and> fst (sliding_sampling_function ex_lib ex_model_function ex_x ex_timestep None (Some ex_cond) 8
        ex_model_options None ex_world) = Inr None
   \<and> calc_cond_uncond_batch ex_lib (controls ex_world) ex_model_function (Some ex_cond) None ex_x
        ex_timestep 1000 ex_model_options = Inl UnboundLocalError"
proof -
  have "calc_cond_uncond_batch ex_lib (controls ex_world) ex_model_function (Some ex_cond) None
      ex_x ex_timestep 1000 ex_model_options = Inl UnboundLocalError"
    by code_simp
  then show ?thesis
    by (simp add: sliding_sampling_function_def is_using_sliding_context_def ex_world_def
        ex_adgs_def)
qed

section \<open>The projection of a conditioning entry\<close>

lemma sequence_py_index:
  assumes "sequence (map (py_index rs) idxs) = Inr rs'"
  shows "rs' = map (row_at rs) idxs
       \<and> (\<forall>n\<in>set idxs. - int (length rs) \<le> n \<and> n < int (length rs))"
  using assms
proof (induction idxs arbitrary: rs')
  case Nil
  then show ?case by simp
next
  case (Cons n idxs)
  from Cons.prems obtain r rest where r: "py_index rs n = Inr r"
    and rest: "sequence (map (py_index rs) idxs) = Inr rest" and rs': "rs' = r # rest"
    by (auto simp: bnd_eq_Inr)
  from r have "r = row_at rs n \<and> - int (length rs) \<le> n \<and> n < int (length rs)"
    by (auto simp: py_index_def row_at_def split: if_splits)
  with Cons.IH [OF rest] rs' show ?case by simp
qed

lemma gather_Inr:
  assumes "gather t idxs = Inr t'"
  shows "\<exists>tr rs. t = Tensor tr rs \<and> t' = Tensor tr (map (row_at rs) idxs)
       \<and> (\<forall>n\<in>set idxs. - int (length rs) \<le> n \<and> n < int (length rs))"
proof (cases t)
  case (Tensor0 v)
  with assms show ?thesis by simp
next
  case (Tensor tr rs)
  with assms obtain rs' where "sequence (map (py_index rs) idxs) = Inr rs'" "t' = Tensor tr rs'"
    by (auto simp: bnd_eq_Inr)
  with sequence_py_index [of rs idxs rs'] Tensor show ?thesis by simp
qed

lemma resize_tensor_Inr:
  assumes "resize_tensor x idxs t = Inr t'"
  shows "(size0 t = size0 x \<longrightarrow>
            (\<exists>tr rs. t = Tensor tr rs \<and> t' = Tensor tr (map (row_at rs) idxs)
               \<and> (\<forall>n\<in>set idxs. - int (length rs) \<le> n \<and> n < int (length rs))))
       \<and> (size0 t \<noteq> size0 x \<longrightarrow> t' = t)"
proof -
  from assms obtain n xn where n: "size0 t = Inr n" and xn: "size0 x = Inr xn"
    and res: "(if n = xn then gather t idxs else Inr t) = Inr t'"
    by (auto simp: resize_tensor_def bnd_eq_Inr)
  show ?thesis
  proof (cases "n = xn")
    case True
    with res have "gather t idxs = Inr t'" by simp
    from gather_Inr [OF this] n xn True show ?thesis by simp
  next
    case False
    with res n xn show ?thesis by simp
  qed
qed

lemma resize_item_tensor:
  assumes "resize_item fuel g x idxs h k (VTensor t) = (Inr v', h')"
  shows "\<exists>t'. v' = VTensor t' \<and> resize_tensor x idxs t = Inr t'"
  using assms by (auto simp: resize_item_def bnd_eq_Inr)

lemma resize_item_opaque:
  assumes "resize_item fuel g x idxs h k v = (Inr v', h')" and "k \<noteq> ''control''"
    and "opaque_value v"
  shows "v' = v"
  using assms by (cases v) (auto simp: resize_item_def opaque_value_def)

lemma resize_items_Inr:
  assumes "resize_items fuel g x idxs h entry = (Inr out, h')"
  shows "list_all2 (\<lambda>kv kv'. fst kv' = fst kv
           \<and> (\<exists>h1 h2. resize_item fuel g x idxs h1 (fst kv) (snd kv) = (Inr (snd kv'), h2)))
         entry out"
  using assms
proof (induction entry arbitrary: h out)
  case Nil
  then show ?case by simp
next
  case (Cons kv entry)
  obtain k v where kv: "kv = (k, v)" by (cases kv)
  from Cons.prems kv obtain v' h1 rest where item: "resize_item fuel g x idxs h k v = (Inr v', h1)"
    and rest: "resize_items fuel g x idxs h1 entry = (Inr rest, h')"
    and out: "out = (k, v') # rest"
    by (auto split: prod.splits sum.splits)
  from Cons.IH [OF rest] item kv out show ?case by auto
qed

lemma get_resized_cond_Inr:
  assumes "get_resized_cond fuel g x idxs h cond_in = (Inr out, h')"
  shows "list_all2 (\<lambda>entry entry'.
            list_all2 (\<lambda>kv kv'. fst kv' = fst kv
              \<and> (\<exists>h1 h2. resize_item fuel g x idxs h1 (fst kv) (snd kv) = (Inr (snd kv'), h2)))
            entry entry')
         cond_in out"
  using assms
proof (induction cond_in arbitrary: h out)
  case Nil
  then show ?case by simp
next
  case (Cons entry cond_in)
  from Cons.prems obtain entry' h1 rest where
    one: "resize_items fuel g x idxs h entry = (Inr entry', h1)"
    and rest: "get_resized_cond fuel g x idxs h1 cond_in = (Inr rest, h')"
    and out: "out = entry' # rest"
    by (auto split: prod.splits sum.splits)
  from Cons.IH [OF rest] resize_items_Inr [OF one] out show ?case by simp
qed

lemma sequence_py_index_Inr:
  assumes "\<forall>i\<in>set idxs. - int (length rs) \<le> i \<and> i < int (length rs)"
  shows "\<exists>rs'. sequence (map (py_index rs) idxs) = Inr rs'"
  using assms
proof (induction idxs)
  case Nil
  then show ?case by simp
next
  case (Cons i idxs)
  then obtain rs' where "sequence (map (py_index rs) idxs) = Inr rs'" by auto
  moreover from Cons.prems have "\<exists>r. py_index rs i = Inr r"
    by (auto simp: py_index_def)
  ultimately show ?case by auto
qed

lemma resize_tensor_returns:
  assumes "size0 x = Inr n" and "\<forall>i\<in>set idxs. - int n \<le> i \<and> i < int n"
  shows "\<exists>t'. resize_tensor x idxs (Tensor tr rs) = Inr t'"
proof (cases "length rs = n")
  case True
  with assms(2) sequence_py_index_Inr [of idxs rs] obtain rs' where
    "sequence (map (py_index rs) idxs) = Inr rs'" by auto
  with True assms(1) show ?thesis
    by (simp add: resize_tensor_def size0_def shape_at_def)
next
  case False
  with assms(1) show ?thesis
    by (simp add: resize_tensor_def size0_def shape_at_def)
qed

lemma resize_items_returns:
  assumes "size0 x = Inr n" and "\<forall>i\<in>set idxs. - int n \<le> i \<and> i < int n"
    and "plain_entry entry"
  shows "\<exists>out. resize_items fuel g x idxs h entry = (Inr out, h)"
  using assms(3)
proof (induction entry)
  case Nil
  then show ?case by simp
next
  case (Cons kv entry)
  obtain k v where kv: "kv = (k, v)" by (cases kv)
  from Cons.prems kv have k: "k \<noteq> ''control''" and rest: "plain_entry entry"
    and v: "case v of VTensor (Tensor0 u) \<Rightarrow> False | VTensor (Tensor tr rs) \<Rightarrow> True
              | VDict d \<Rightarrow> False | _ \<Rightarrow> True"
    by (simp_all add: plain_entry_def)
  have "\<exists>v'. resize_item fuel g x idxs h k v = (Inr v', h)"
  proof (cases v)
    case (VTensor t)
    with v obtain tr rs where t: "t = Tensor tr rs" by (cases t) auto
    from resize_tensor_returns [OF assms(1,2), of tr rs] obtain t' where
      "resize_tensor x idxs (Tensor tr rs) = Inr t'" by blast
    with VTensor t show ?thesis by (simp add: resize_item_def)
  qed (use k v in \<open>simp_all add: resize_item_def\<close>)
  then obtain v' where "resize_item fuel g x idxs h k v = (Inr v', h)" by blast
  moreover from Cons.IH [OF rest] obtain out where
    "resize_items fuel g x idxs h entry = (Inr out, h)" by blast
  ultimately show ?case using kv by simp
qed

text \<open>
  The projection does return for entries without control and nested dict, as soon as the
  batch has a leading dimension of \<open>n\<close> rows and the target indices are indices of rows,
  from \<open>- n\<close> to \<open>n - 1\<close>; the store is unchanged.
\<close>

lemma get_resized_cond_returns:
  assumes "size0 x = Inr n" and "\<forall>i\<in>set idxs. - int n \<le> i \<and> i < int n"
    and "list_all plain_entry cond_in"
  shows "\<exists>out. get_resized_cond fuel g x idxs h cond_in = (Inr out, h)"
  using assms(3)
proof (induction cond_in)
  case Nil
  then show ?case by simp
next
  case (Cons entry cond_in)
  then have "plain_entry entry" and rest: "list_all plain_entry cond_in" by simp_all
  from resize_items_returns [OF assms(1,2) this(1), of fuel g h] obtain e' where
    "resize_items fuel g x idxs h entry = (Inr e', h)" by blast
  moreover from Cons.IH [OF rest] obtain out where
    "get_resized_cond fuel g x idxs h cond_in = (Inr out, h)" by blast
  ultimately show ?case by simp
qed

text \<open>
  Claim C5. When \<^verbatim>\<open>get_resized_cond\<close> returns, the result has the entries of its input,
  each with the same keys in the same order, and for every field: a tensor with as many
  rows as the full batch \<open>x\<close> has been replaced by its rows at the target indices, in
  the order of the indices and as often as an index occurs (all of them are indices of
  rows then); a tensor with another number of rows is unchanged; and a field that is
  neither a tensor nor a dict, under a key other than \<^verbatim>\<open>control\<close>, is unchanged.
\<close>

theorem get_resized_cond_projects:
  assumes "get_resized_cond fuel g x full_idxs h cond_in = (Inr resized_cond, h')"
  shows "length resized_cond = length cond_in
       \<and> (\<forall>i<length cond_in.
            length (resized_cond ! i) = length (cond_in ! i)
          \<and> (\<forall>j<length (cond_in ! i).
               fst (resized_cond ! i ! j) = fst (cond_in ! i ! j)
             \<and> (\<forall>tr rs. snd (cond_in ! i ! j) = VTensor (Tensor tr rs) \<and> size0 x = Inr (length rs)
                  \<longrightarrow> snd (resized_cond ! i ! j) = VTensor (Tensor tr (map (row_at rs) full_idxs))
                    \<and> (\<forall>n\<in>set full_idxs. - int (length rs) \<le> n \<and> n < int (length rs)))
             \<and> (\<forall>t. snd (cond_in ! i ! j) = VTensor t \<and> size0 t \<noteq> size0 x
                  \<longrightarrow> snd (resized_cond ! i ! j) = VTensor t)
             \<and> (fst (cond_in ! i ! j) \<noteq> ''control'' \<and> opaque_value (snd (cond_in ! i ! j))
                  \<longrightarrow> snd (resized_cond ! i ! j) = snd (cond_in ! i ! j))))"
proof -
  let ?item = "\<lambda>kv kv'. fst kv' = fst kv
     \<and> (\<exists>h1 h2. resize_item fuel g x full_idxs h1 (fst kv) (snd kv) = (Inr (snd kv'), h2))"
  from get_resized_cond_Inr [OF assms]
  have all: "list_all2 (list_all2 ?item) cond_in resized_cond" .
  then have len: "length resized_cond = length cond_in"
    by (simp add: list_all2_lengthD)
  have field: "length (resized_cond ! i) = length (cond_in ! i)
          \<and> (\<forall>j<length (cond_in ! i).
               fst (resized_cond ! i ! j) = fst (cond_in ! i ! j)
             \<and> (\<forall>tr rs. snd (cond_in ! i ! j) = VTensor (Tensor tr rs) \<and> size0 x = Inr (length rs)
                  \<longrightarrow> snd (resized_cond ! i ! j) = VTensor (Tensor tr (map (row_at rs) full_idxs))
                    \<and> (\<forall>n\<in>set full_idxs. - int (length rs) \<le> n \<and> n < int (length rs)))
             \<and> (\<forall>t. snd (cond_in ! i ! j) = VTensor t \<and> size0 t \<noteq> size0 x
                  \<longrightarrow> snd (resized_cond ! i ! j) = VTensor t)
             \<and> (fst (cond_in ! i ! j) \<noteq> ''control'' \<and> opaque_value (snd (cond_in ! i ! j))
                  \<longrightarrow> snd (resized_cond ! i ! j) = snd (cond_in ! i ! j)))"
    if i: "i < length cond_in" for i
  proof -
    from all i have entry: "list_all2 ?item (cond_in ! i) (resized_cond ! i)"
      by (rule list_all2_nthD)
    then have l: "length (resized_cond ! i) = length (cond_in ! i)"
      by (simp add: list_all2_lengthD)
    have "fst (resized_cond ! i ! j) = fst (cond_in ! i ! j)
             \<and> (\<forall>tr rs. snd (cond_in ! i ! j) = VTensor (Tensor tr rs) \<and> size0 x = Inr (length rs)
                  \<longrightarrow> snd (resized_cond ! i ! j) = VTensor (Tensor tr (map (row_at rs) full_idxs))
                    \<and> (\<forall>n\<in>set full_idxs. - int (length rs) \<le> n \<and> n < int (length rs)))
             \<and> (\<forall>t. snd (cond_in ! i ! j) = VTensor t \<and> size0 t \<noteq> size0 x
                  \<longrightarrow> snd (resized_cond ! i ! j) = VTensor t)
             \<and> (fst (cond_in ! i ! j) \<noteq> ''control'' \<and> opaque_value (snd (cond_in ! i ! j))
                  \<longrightarrow> snd (resized_cond ! i ! j) = snd (cond_in ! i ! j))"
      if j: "j < length (cond_in ! i)" for j
    proof -
      from entry j have "?item (cond_in ! i ! j) (resized_cond ! i ! j)"
        by (rule list_all2_nthD)
      then obtain h1 h2 where key: "fst (resized_cond ! i ! j) = fst (cond_in ! i ! j)"
        and item: "resize_item fuel g x full_idxs h1 (fst (cond_in ! i ! j)) (snd (cond_in ! i ! j))
                   = (Inr (snd (resized_cond ! i ! j)), h2)"
        by blast
      have per_frame: "snd (resized_cond ! i ! j) = VTensor (Tensor tr (map (row_at rs) full_idxs))
             \<and> (\<forall>n\<in>set full_idxs. - int (length rs) \<le> n \<and> n < int (length rs))"
        if "snd (cond_in ! i ! j) = VTensor (Tensor tr rs)" and "size0 x = Inr (length rs)"
        for tr rs
      proof -
        from item that(1) obtain t' where t': "snd (resized_cond ! i ! j) = VTensor t'"
          and r: "resize_tensor x full_idxs (Tensor tr rs) = Inr t'"
          using resize_item_tensor by metis
        have "size0 (Tensor tr rs) = size0 x"
          using that(2) by (simp add: size0_def shape_at_def)
        with resize_tensor_Inr [OF r] t' show ?thesis by auto
      qed
      have other: "snd (resized_cond ! i ! j) = VTensor t"
        if "snd (cond_in ! i ! j) = VTensor t" and "size0 t \<noteq> size0 x" for t
      proof -
        from item that(1) obtain t' where t': "snd (resized_cond ! i ! j) = VTensor t'"
          and r: "resize_tensor x full_idxs t = Inr t'"
          using resize_item_tensor by metis
        with resize_tensor_Inr [OF r] that(2) show ?thesis by simp
      qed
      have opaque: "snd (resized_cond ! i ! j) = snd (cond_in ! i ! j)"
        if "fst (cond_in ! i ! j) \<noteq> ''control''" and "opaque_value (snd (cond_in ! i ! j))"
        using resize_item_opaque [OF item that] .
      from key per_frame other opaque show ?thesis by blast
    qed
    with l show ?thesis by blast
  qed
  from len field show ?thesis by blast
qed

text \<open>
  An instance of C5, the scenario of the specification: a batch of sixteen frames and the
  target indices \<open>[0, 1, 2, 6, 7]\<close>. The tensor with sixteen rows becomes the tensor of its
  rows 0, 1, 2, 6 and 7, in this order; the tensor with one row and the number stay.
\<close>

theorem get_resized_cond_projects_witness:
  "fst (get_resized_cond 1000 ex_adgs ex_x16 [0, 1, 2, 6, 7] ex_heap [ex_entry16])
     = Inr [[(''per_frame'', VTensor (Tensor [77] [100, 101, 102, 106, 107])),
             (''pooled_output'', VTensor (Tensor [1280] [7])),
             (''strength'', VFloat 1)]]
   \<and> snd ([(''per_frame'', VTensor (Tensor [77] [100, 101, 102, 106, 107 :: nat])),
           (''pooled_output'', VTensor (Tensor [1280] [7])),
           (''strength'', VFloat 1)] ! 1) = snd (ex_entry16 ! 1)"
proof -
  let ?out = "[(''per_frame'', VTensor (Tensor [77] [100, 101, 102, 106, 107 :: nat])),
              (''pooled_output'', VTensor (Tensor [1280] [7])),
              (''strength'', VFloat 1)]"
  let ?call = "get_resized_cond 1000 ex_adgs ex_x16 [0, 1, 2, 6, 7] ex_heap [ex_entry16]"
  have res: "fst ?call = Inr [?out]"
    by code_simp
  have "?call = (fst ?call, snd ?call)"
    by (rule surjective_pairing)
  then have run: "?call = (Inr [?out], snd ?call)"
    by (simp only: res)
  have pooled: "snd (ex_entry16 ! 1) = VTensor (Tensor [1280] [7])"
    by (simp add: ex_entry16_def)
  have "snd ([?out] ! 0 ! 1) = VTensor (Tensor [1280] [7])"
  proof (rule get_resized_cond_projects [OF run, THEN conjunct2, rule_format, of 0,
        THEN conjunct2, rule_format, of 1, THEN conjunct2, THEN conjunct2, THEN conjunct1,
        rule_format])
    show "0 < length [ex_entry16]" by simp
    show "1 < length ([ex_entry16] ! 0)" by (simp add: ex_entry16_def)
    show "snd ([ex_entry16] ! 0 ! 1) = VTensor (Tensor [1280] [7])
        \<and> size0 (Tensor [1280] [7 :: nat]) \<noteq> size0 ex_x16"
      by (simp add: ex_entry16_def size0_def shape_at_def ex_x16_def)
  qed
  with res pooled show ?thesis by simp
qed

section \<open>The projection of a control chain\<close>

lemma window_scoped_twice [simp]:
  "window_scoped g idxs (window_scoped g idxs c) = window_scoped g idxs c"
  by (simp add: window_scoped_def)













section \<open>The wrapped sampler\<close>

text \<open>
  Claim C10. For a model without injected motion module parameters,
  \<^verbatim>\<open>animatediff_sample\<close> is the original sampling function: it returns what that function
  returns for the same arguments, and the state after the call is the state that the
  original function leaves, so the wrapper itself replaces no function, loads no motion
  module and does not touch the global state.
\<close>

theorem animatediff_sample_without_params:
  assumes "\<not> is_injected_mm_params X model"
  shows "animatediff_sample X orig_comfy_sample model args kw w = orig_comfy_sample model args kw w"
  using assms by (simp add: animatediff_sample_def)

text \<open>An instance of C10: the model 0, without parameters, and one positional argument.\<close>

theorem animatediff_sample_without_params_witness:
  "animatediff_sample ex_ext ex_sample 0 [ATensor ex_x] ex_kwargs ex_world = (Inr 1, ex_world)"
proof -
  have "\<not> is_injected_mm_params ex_ext 0"
    by (simp add: ex_ext_def)
  from animatediff_sample_without_params [OF this]
  have "animatediff_sample ex_ext ex_sample 0 [ATensor ex_x] ex_kwargs ex_world
      = ex_sample 0 [ATensor ex_x] ex_kwargs ex_world" .
  then show ?thesis by (simp add: ex_sample_def)
qed

text \<open>
  Claim C8 says that after any exception of a run the error reaches the caller unchanged
  and the whole teardown has run. The code does not do so when the exception comes before
  line 159 has bound \<^verbatim>\<open>motion_module\<close>. If loading the motion module raises \<open>e\<close>, the
  \<^verbatim>\<open>finally\<close> block calls \<^verbatim>\<open>reset_scale_multiplier\<close> on None at line 193: the caller
  gets an AttributeError in place of \<open>e\<close>, and the restoration of lines 202-210 does not
  run, so the functions installed at lines 149-155 stay in place and the beta schedule is
  not reapplied.
\<close>

theorem animatediff_sample_failed_load:
  assumes "is_injected_mm_params X model"
    and "get_injected_mm_params X model = Inr params0"
    and "latents_size args = Inr n"
    and "inject_params_into_model X model (params0\<lparr>ip_video_length := int n\<rparr>) = Inr model'"
    and "new_beta_cache X model' = Inr cache"
    and "load_motion_module X (params0\<lparr>ip_video_length := int n\<rparr>) model' = Inl e"
    and "eject_motion_module X model' = Inr ()"
  shows "fst (animatediff_sample X orig_comfy_sample model args kw w) = Inl AttributeError
       \<and> forward_timestep_embed (snd (animatediff_sample X orig_comfy_sample model args kw w))
           = AD_forward_timestep_embed
       \<and> GroupNorm_forward (snd (animatediff_sample X orig_comfy_sample model args kw w))
           = AD_groupnorm_mm_forward
       \<and> sampling_function (snd (animatediff_sample X orig_comfy_sample model args kw w))
           = AD_sliding_sampling_function
       \<and> calls (snd (animatediff_sample X orig_comfy_sample model args kw w))
           = calls w @ [Inject_params_into_model, Eject_motion_module]"
  using assms
  by (simp add: animatediff_sample_def try_block_def finally_block_def Let_def log_call_def)

text \<open>
  An instance of the statement on C8: loading the motion module raises \<open>Raised 7\<close>; the call
  ends with an AttributeError, and the sampling function of the host, which was \<open>Host 4\<close>,
  is still replaced.
\<close>

theorem animatediff_sample_failed_load_witness:
  "fst (animatediff_sample ex_ext ex_sample 1 [ATensor ex_x] ex_kwargs ex_world) = Inl AttributeError
   \<and> sampling_function (snd (animatediff_sample ex_ext ex_sample 1 [ATensor ex_x] ex_kwargs ex_world))
       = AD_sliding_sampling_function
   \<and> sampling_function ex_world = Host 4
   \<and> load_motion_module ex_ext (ex_params\<lparr>ip_video_length := 1\<rparr>) 1 = Inl (Raised 7)"
proof -
  have a: "is_injected_mm_params ex_ext 1"
    and b: "get_injected_mm_params ex_ext 1 = Inr ex_params"
    and d: "inject_params_into_model ex_ext 1 (ex_params\<lparr>ip_video_length := int 1\<rparr>) = Inr 1"
    and e: "new_beta_cache ex_ext 1 = Inr 0"
    and f: "load_motion_module ex_ext (ex_params\<lparr>ip_video_length := int 1\<rparr>) 1 = Inl (Raised 7)"
    and g: "eject_motion_module ex_ext 1 = Inr ()"
    by (simp_all add: ex_ext_def)
  have c: "latents_size [ATensor ex_x] = Inr 1"
    by (simp add: latents_size_def py_index_def size0_def shape_at_def ex_x_def)
  from animatediff_sample_failed_load [OF a b c d e f g, of ex_sample ex_kwargs ex_world] f
  show ?thesis by (simp add: ex_world_def)
qed

text \<open>
  The teardown does run when the exception comes out of the sampling itself: with the
  motion module loaded and injected, and collaborators of the \<^verbatim>\<open>finally\<close> block that
  return, an exception \<open>e\<close> of the wrapped sampling function reaches the caller as it is,
  the five function references are those from before the call, and the global state is
  reset.
\<close>

lemma animatediff_sample_failed_sampling:
  assumes "is_injected_mm_params X model"
    and "get_injected_mm_params X model = Inr params0"
    and "latents_size args = Inr n"
    and "params = params0\<lparr>ip_video_length := int n\<rparr>"
    and "inject_params_into_model X model params = Inr model'"
    and "new_beta_cache X model' = Inr cache"
    and "load_motion_module X params model' = Inr m"
    and "inject_motion_module X model' m params = Inr ()"
    and "register_schedule X model' params = Inr ()"
    and "set_scale_multiplier X m params = Inr ()"
    and "\<And>kw' w'. fst (wrap_function_to_inject_xformers_bug_info X orig_comfy_sample model' args kw' w')
           = Inl e"
    and "eject_motion_module X model' = Inr ()"
    and "reset_scale_multiplier X m = Inr ()"
    and "set_sub_idxs X m None = Inr ()"
    and "has_loras X m = Inr False"
    and "use_cached_beta_schedule_and_clean X cache model' = Inr ()"
  shows "fst (animatediff_sample X orig_comfy_sample model args kw w) = Inl e
       \<and> forward_timestep_embed (snd (animatediff_sample X orig_comfy_sample model args kw w))
           = forward_timestep_embed w
       \<and> maximum_batch_area (snd (animatediff_sample X orig_comfy_sample model args kw w))
           = maximum_batch_area w
       \<and> GroupNorm_forward (snd (animatediff_sample X orig_comfy_sample model args kw w))
           = GroupNorm_forward w
       \<and> GroupNormAD_forward (snd (animatediff_sample X orig_comfy_sample model args kw w))
           = GroupNormAD_forward w
       \<and> sampling_function (snd (animatediff_sample X orig_comfy_sample model args kw w))
           = sampling_function w
       \<and> ADGS (snd (animatediff_sample X orig_comfy_sample model args kw w)) = reset (ADGS w)"
  using assms(1-10) assms(12-16)
  by (simp add: animatediff_sample_def try_block_def finally_block_def restoration_def
      Let_def log_call_def split_beta assms(11) reset_def)

end
